theory Spec2Isabelle
  imports Main "HOL-Library.AList"
begin

section \<open>Python values\<close>

text \<open>
  The SDK moves dynamically typed data around: the document read by \<^verbatim>\<open>json.load\<close>, the
  \<^verbatim>\<open>parameters\<close>, \<^verbatim>\<open>credentials\<close>, \<^verbatim>\<open>settings\<close> bags and the \<^verbatim>\<open>connections\<close> mapping are all
  \<^verbatim>\<open>Any\<close> in the annotations, and the code inspects them with \<^verbatim>\<open>isinstance\<close>, truthiness
  and \<^verbatim>\<open>in\<close>. They are modelled by one datatype of JSON-shaped Python values.

  A string is a list of characters; a \<^typ>\<open>char\<close> stands for one code point of the Latin-1
  range. A float is identified by the text \<^verbatim>\<open>repr\<close> prints for it (which determines the
  double). A dict is an association list in insertion order whose keys are strings (the
  keys \<^verbatim>\<open>json.load\<close> produces and the ones the SDK writes); \<^const>\<open>map_of\<close> reads it and
  \<^const>\<open>AList.update\<close> is item assignment: it replaces the value of a present key in place
  and appends an absent key at the end.

  Values are compared structurally and copied freely. The SDK itself shares objects (the
  document returned by \<^verbatim>\<open>to_dict\<close> holds the very \<^verbatim>\<open>connections\<close> object of the workflow);
  nothing below depends on two names for one object being mutated through one of them.
\<close>

datatype pyval =
    PNone
  | PBool bool
  | PInt int
  | PFloat string
  | PStr string
  | PList "pyval list"
  | PDict "(string \<times> pyval) list"

text \<open>Truthiness, as \<^verbatim>\<open>not x\<close>, \<^verbatim>\<open>x or d\<close> and \<^verbatim>\<open>if x\<close> decide it.\<close>

fun truthy :: "pyval \<Rightarrow> bool" where
  "truthy PNone = False"
| "truthy (PBool b) = b"
| "truthy (PInt i) = (i \<noteq> 0)"
| "truthy (PFloat r) = (r \<noteq> ''0.0'' \<and> r \<noteq> ''-0.0'')"
| "truthy (PStr s) = (s \<noteq> [])"
| "truthy (PList xs) = (xs \<noteq> [])"
| "truthy (PDict kvs) = (kvs \<noteq> [])"

text \<open>\<^verbatim>\<open>x or d\<close>.\<close>

definition py_or :: "pyval \<Rightarrow> pyval \<Rightarrow> pyval" where
  "py_or x d = (if truthy x then x else d)"

subsection \<open>Exceptions\<close>

text \<open>
  The SDK's own exceptions carry a message and an optional code (\<^verbatim>\<open>SDKError.__init__\<close>).
  \<^verbatim>\<open>ValueError\<close> is raised by the structure checker with a message of its own, \<^verbatim>\<open>OSError\<close>
  (Python 3's \<^verbatim>\<open>IOError\<close>) by the operating system. The remaining built-in exceptions are
  raised by the interpreter when an operation meets a value of the wrong shape.
\<close>

datatype sdk_class = WorkflowError | NodeError | ExportError | ValidationError

datatype builtin = TypeError | AttributeError | IndexError | KeyError | OverflowError

datatype error =
    SDKError sdk_class string "string option"
  | ValueError string
  | OSError string
  | Builtin builtin
  | OutsideAnnotation string

text \<open>
  \<^const>\<open>OutsideAnnotation\<close> is not a Python exception. An \<^verbatim>\<open>id\<close> is annotated
  \<^verbatim>\<open>Optional[str]\<close> and is a string in the model; where a document hands the constructor a
  truthy \<^verbatim>\<open>id\<close> that is not a string, Python stores it unchecked and the model stops with
  this value, naming the field.
\<close>

text \<open>The \<^verbatim>\<open>ErrorCodes\<close> constants that the two modules use.\<close>

definition WORKFLOW_INVALID_NAME :: string where "WORKFLOW_INVALID_NAME = ''WF001''"
definition WORKFLOW_DUPLICATE_NODE :: string where "WORKFLOW_DUPLICATE_NODE = ''WF003''"
definition NODE_INVALID_TYPE :: string where "NODE_INVALID_TYPE = ''ND001''"
definition NODE_MISSING_REQUIRED_FIELD :: string where "NODE_MISSING_REQUIRED_FIELD = ''ND003''"
definition CONNECTION_SOURCE_NOT_FOUND :: string where "CONNECTION_SOURCE_NOT_FOUND = ''CN001''"
definition CONNECTION_TARGET_NOT_FOUND :: string where "CONNECTION_TARGET_NOT_FOUND = ''CN002''"
definition EXPORT_FILE_ERROR :: string where "EXPORT_FILE_ERROR = ''EX001''"
definition EXPORT_SERIALIZATION_ERROR :: string where "EXPORT_SERIALIZATION_ERROR = ''EX002''"
definition EXPORT_VALIDATION_ERROR :: string where "EXPORT_VALIDATION_ERROR = ''EX003''"

text \<open>Log records: the level and the formatted message.\<close>

datatype level = DEBUG | INFO | WARNING | ERROR

type_synonym event = "level \<times> string"

subsection \<open>Strings\<close>

text \<open>
  \<^verbatim>\<open>str.strip()\<close> removes leading and trailing whitespace; in the Latin-1 range
  \<^verbatim>\<open>str.isspace\<close> holds for the code points 9 to 13, 28 to 32, 133 and 160.
\<close>

definition py_isspace :: "char \<Rightarrow> bool" where
  "py_isspace c = (c \<in> set [CHR 0x09, CHR 0x0A, CHR 0x0B, CHR 0x0C, CHR 0x0D,
     CHR 0x1C, CHR 0x1D, CHR 0x1E, CHR 0x1F, CHR 0x20, CHR 0x85, CHR 0xA0])"

definition strip :: "string \<Rightarrow> string" where
  "strip s = rev (dropWhile py_isspace (rev (dropWhile py_isspace s)))"

text \<open>\<^verbatim>\<open>sep.join(xs)\<close>.\<close>

fun join :: "string \<Rightarrow> string list \<Rightarrow> string" where
  "join sep [] = []"
| "join sep [x] = x"
| "join sep (x # y # ys) = x @ sep @ join sep (y # ys)"

text \<open>\<^verbatim>\<open>str(i)\<close> for an integer: decimal digits, with a minus sign when negative.\<close>

definition digit_char :: "nat \<Rightarrow> char" where
  "digit_char d = ''0123456789'' ! d"

fun digits10 :: "nat \<Rightarrow> string" where
  "digits10 n = (if n < 10 then [digit_char n] else digits10 (n div 10) @ [digit_char (n mod 10)])"

declare digits10.simps [simp del]

definition str_int :: "int \<Rightarrow> string" where
  "str_int i = (if i < 0 then CHR ''-'' # digits10 (nat (- i)) else digits10 (nat i))"

text \<open>
  \<^verbatim>\<open>f"{x}"\<close> for the values that can stand where the SDK formats one: a string is itself,
  a float prints its \<^verbatim>\<open>repr\<close>. (Lists and dicts are never formatted: every place that
  formats a value first tests it for membership in a set, which they fail, being
  unhashable.)
\<close>

fun py_format :: "pyval \<Rightarrow> string" where
  "py_format PNone = ''None''"
| "py_format (PBool b) = (if b then ''True'' else ''False'')"
| "py_format (PInt i) = str_int i"
| "py_format (PFloat r) = r"
| "py_format (PStr s) = s"
| "py_format (PList xs) = []"
| "py_format (PDict kvs) = []"

subsection \<open>Iteration and \<^verbatim>\<open>float()\<close>\<close>

text \<open>
  \<^verbatim>\<open>for x in v\<close> and \<^verbatim>\<open>list(v)\<close>: a list yields its elements, a dict its keys, a string its
  characters; the other values are not iterable.
\<close>

fun py_iter :: "pyval \<Rightarrow> error + pyval list" where
  "py_iter (PList xs) = Inr xs"
| "py_iter (PDict kvs) = Inr (map (\<lambda>kv. PStr (fst kv)) kvs)"
| "py_iter (PStr s) = Inr (map (\<lambda>c. PStr [c]) s)"
| "py_iter v = Inl (Builtin TypeError)"

text \<open>
  The text \<^verbatim>\<open>float()\<close> accepts, after stripping whitespace: an optional sign, then
  \<^verbatim>\<open>inf\<close>, \<^verbatim>\<open>infinity\<close> or \<^verbatim>\<open>nan\<close> in any case, or a decimal number with an optional
  exponent, where single underscores may separate digits.
\<close>

definition is_digit :: "char \<Rightarrow> bool" where
  "is_digit c = (c \<in> set ''0123456789'')"

fun digitpart :: "string \<Rightarrow> bool" where
  "digitpart [] = False"
| "digitpart [c] = is_digit c"
| "digitpart (c # d # cs) =
     (is_digit c \<and> (if d = CHR ''_'' then digitpart cs else digitpart (d # cs)))"

definition number_part :: "string \<Rightarrow> bool" where
  "number_part s =
     (let a = takeWhile (\<lambda>c. c \<noteq> CHR ''.'') s; b = dropWhile (\<lambda>c. c \<noteq> CHR ''.'') s
      in if b = [] then digitpart a
         else if tl b = [] then digitpart a
         else (a = [] \<or> digitpart a) \<and> digitpart (tl b))"

definition drop_sign :: "string \<Rightarrow> string" where
  "drop_sign s = (case s of [] \<Rightarrow> [] | c # cs \<Rightarrow> if c = CHR ''+'' \<or> c = CHR ''-'' then cs else s)"

definition floatnumber :: "string \<Rightarrow> bool" where
  "floatnumber s =
     (let m = takeWhile (\<lambda>c. c \<noteq> CHR ''e'' \<and> c \<noteq> CHR ''E'') s;
          r = dropWhile (\<lambda>c. c \<noteq> CHR ''e'' \<and> c \<noteq> CHR ''E'') s
      in if r = [] then number_part m
         else number_part m \<and> digitpart (drop_sign (tl r)))"

definition lower :: "char \<Rightarrow> char" where
  "lower c = (case map_of (zip ''ABCDEFGHIJKLMNOPQRSTUVWXYZ'' ''abcdefghijklmnopqrstuvwxyz'') c of
                None \<Rightarrow> c | Some l \<Rightarrow> l)"

definition float_accepts :: "string \<Rightarrow> bool" where
  "float_accepts s =
     (let u = drop_sign (strip s)
      in map lower u \<in> set [''inf'', ''infinity'', ''nan''] \<or> floatnumber u)"

text \<open>
  \<^verbatim>\<open>float(v)\<close> inside \<^verbatim>\<open>try: ... except (TypeError, ValueError)\<close>: it converts, or raises one
  of the two exceptions that the handler catches, or raises \<^verbatim>\<open>OverflowError\<close> (an integer
  that rounds to \<open>2 ^ 1024\<close> or beyond), which the handler lets through.
\<close>

datatype float_result = Converted | Caught | Overflows

fun py_float :: "pyval \<Rightarrow> float_result" where
  "py_float (PBool b) = Converted"
| "py_float (PInt i) = (if \<bar>i\<bar> \<ge> 2 ^ 1024 - 2 ^ 970 then Overflows else Converted)"
| "py_float (PFloat r) = Converted"
| "py_float (PStr s) = (if float_accepts s then Converted else Caught)"
| "py_float v = Caught"

section \<open>Node\<close>

text \<open>\<^verbatim>\<open>isinstance\<close> tests. A \<^verbatim>\<open>bool\<close> is an \<^verbatim>\<open>int\<close> in Python.\<close>

fun is_str :: "pyval \<Rightarrow> bool" where
  "is_str (PStr s) = True"
| "is_str v = False"

fun is_list :: "pyval \<Rightarrow> bool" where
  "is_list (PList xs) = True"
| "is_list v = False"

fun is_dict :: "pyval \<Rightarrow> bool" where
  "is_dict (PDict kvs) = True"
| "is_dict v = False"

fun is_int_or_float :: "pyval \<Rightarrow> bool" where
  "is_int_or_float (PBool b) = True"
| "is_int_or_float (PInt i) = True"
| "is_int_or_float (PFloat r) = True"
| "is_int_or_float v = False"

text \<open>
  The attributes of a \<^verbatim>\<open>Node\<close>. After \<^verbatim>\<open>__init__\<close> the type and the name are strings
  (results of \<^verbatim>\<open>strip\<close>); the other attributes are stored as given.
\<close>

record node =
  n_id :: string
  n_type :: string
  n_name :: string
  type_version :: pyval
  parameters :: pyval
  position :: pyval
  credentials :: pyval

text \<open>
  \<^verbatim>\<open>not v or not v.strip()\<close>: a falsy value is blank; a truthy string is blank when
  nothing is left after stripping; a truthy value of another type has no \<^verbatim>\<open>strip\<close>.
\<close>

definition is_blank :: "pyval \<Rightarrow> error + bool" where
  "is_blank v =
     (if \<not> truthy v then Inr True
      else case v of PStr s \<Rightarrow> Inr (strip s = []) | _ \<Rightarrow> Inl (Builtin AttributeError))"

text \<open>\<^verbatim>\<open>v.strip()\<close>, reached for strings only.\<close>

definition py_strip :: "pyval \<Rightarrow> string" where
  "py_strip v = (case v of PStr s \<Rightarrow> strip s | _ \<Rightarrow> [])"

text \<open>\<^verbatim>\<open>v if v else str(uuid.uuid4())\<close>, the second argument being the generated text.\<close>

definition id_or_fresh :: "pyval \<Rightarrow> string \<Rightarrow> error + string" where
  "id_or_fresh v uuid =
     (if \<not> truthy v then Inr uuid
      else case v of PStr s \<Rightarrow> Inr s | _ \<Rightarrow> Inl (OutsideAnnotation ''id''))"

text \<open>
  \<^verbatim>\<open>Node.__init__(node_type, name, node_id, type_version, parameters, position,
  credentials)\<close>. The first argument of the model is the text \<^verbatim>\<open>str(uuid.uuid4())\<close> would
  return. The defaults of the signature are \<^verbatim>\<open>None\<close>, \<open>1\<close>, \<^verbatim>\<open>None\<close>, \<^verbatim>\<open>None\<close>,
  \<^verbatim>\<open>None\<close>. The result is the new object or the exception, and the log records written.
\<close>

definition Node_init ::
  "string \<Rightarrow> pyval \<Rightarrow> pyval \<Rightarrow> pyval \<Rightarrow> pyval \<Rightarrow> pyval \<Rightarrow> pyval \<Rightarrow> pyval
     \<Rightarrow> (error + node) \<times> event list" where
  "Node_init uuid node_type name node_id type_version' parameters' position' credentials' =
     (case is_blank node_type of
        Inl e \<Rightarrow> (Inl e, [])
      | Inr True \<Rightarrow>
          (Inl (SDKError NodeError ''Node type cannot be empty'' (Some NODE_INVALID_TYPE)), [])
      | Inr False \<Rightarrow>
     (case is_blank name of
        Inl e \<Rightarrow> (Inl e, [])
      | Inr True \<Rightarrow>
          (Inl (SDKError NodeError ''Node name cannot be empty''
                  (Some NODE_MISSING_REQUIRED_FIELD)), [])
      | Inr False \<Rightarrow>
     (case id_or_fresh node_id uuid of
        Inl e \<Rightarrow> (Inl e, [])
      | Inr i \<Rightarrow>
          (let self = \<lparr> n_id = i,
                        n_type = py_strip node_type,
                        n_name = py_strip name,
                        type_version = type_version',
                        parameters = py_or parameters' (PDict []),
                        position = py_or position' (PList [PInt 0, PInt 0]),
                        credentials = py_or credentials' (PDict []) \<rparr>
           in (Inr self,
               [(DEBUG, ''Created node '' @ [CHR 0x27] @ n_name self @ [CHR 0x27] @ '' (ID: ''
                          @ n_id self @ '', Type: '' @ n_type self @ '')'')])))))"

text \<open>\<^verbatim>\<open>Node.to_dict\<close>. \<^verbatim>\<open>list(self.position)\<close> raises on a position that is not iterable.\<close>

definition Node_to_dict :: "node \<Rightarrow> error + pyval" where
  "Node_to_dict self =
     (case py_iter (position self) of
        Inl e \<Rightarrow> Inl e
      | Inr xs \<Rightarrow>
          (let node_dict =
                 [(''id'', PStr (n_id self)),
                  (''name'', PStr (n_name self)),
                  (''type'', PStr (n_type self)),
                  (''typeVersion'', type_version self),
                  (''position'', PList xs),
                  (''parameters'', parameters self)]
           in Inr (PDict (if truthy (credentials self)
                          then AList.update ''credentials'' (credentials self) node_dict
                          else node_dict))))"

text \<open>\<^verbatim>\<open>d.get(key, dflt)\<close> on the items of a dict.\<close>

definition dict_get :: "(string \<times> pyval) list \<Rightarrow> string \<Rightarrow> pyval \<Rightarrow> pyval" where
  "dict_get kvs key dflt = (case map_of kvs key of None \<Rightarrow> dflt | Some v \<Rightarrow> v)"

text \<open>
  \<^verbatim>\<open>Node.from_dict\<close>: the class method calls the constructor, so the checks of
  \<^verbatim>\<open>__init__\<close> run on what the fragment holds. A fragment that is not a dict has no
  \<^verbatim>\<open>get\<close>.
\<close>

definition Node_from_dict :: "string \<Rightarrow> pyval \<Rightarrow> (error + node) \<times> event list" where
  "Node_from_dict uuid data =
     (case data of
        PDict kvs \<Rightarrow>
          Node_init uuid
            (dict_get kvs ''type'' (PStr []))
            (dict_get kvs ''name'' (PStr []))
            (dict_get kvs ''id'' PNone)
            (dict_get kvs ''typeVersion'' (PInt 1))
            (dict_get kvs ''parameters'' (PDict []))
            (dict_get kvs ''position'' (PList [PInt 0, PInt 0]))
            (dict_get kvs ''credentials'' (PDict []))
      | _ \<Rightarrow> (Inl (Builtin AttributeError), []))"

text \<open>
  \<^verbatim>\<open>Node.validate\<close>. The position test converts both coordinates with \<^verbatim>\<open>float\<close> under a
  handler for \<^verbatim>\<open>TypeError\<close> and \<^verbatim>\<open>ValueError\<close>; an \<^verbatim>\<open>OverflowError\<close> leaves the method.
\<close>

definition position_errors :: "pyval \<Rightarrow> error + string list" where
  "position_errors p =
     (case p of
        PList [a, b] \<Rightarrow>
          (case py_float a of
             Overflows \<Rightarrow> Inl (Builtin OverflowError)
           | Caught \<Rightarrow> Inr [''Position coordinates must be numeric'']
           | Converted \<Rightarrow>
               (case py_float b of
                  Overflows \<Rightarrow> Inl (Builtin OverflowError)
                | Caught \<Rightarrow> Inr [''Position coordinates must be numeric'']
                | Converted \<Rightarrow> Inr []))
      | _ \<Rightarrow> Inr [''Position must be a list of 2 numbers''])"

definition Node_validate :: "node \<Rightarrow> error + string list" where
  "Node_validate self =
     (case position_errors (position self) of
        Inl e \<Rightarrow> Inl e
      | Inr pos_errors \<Rightarrow>
          Inr ((if n_id self = [] then [''Node ID is required''] else [])
             @ (if n_name self = [] then [''Node name is required''] else [])
             @ (if n_type self = [] then [''Node type is required''] else [])
             @ pos_errors
             @ (if is_int_or_float (type_version self) then []
                else [''Type version must be numeric''])
             @ (if is_dict (parameters self) then [] else [''Parameters must be a dictionary''])
             @ (if is_dict (credentials self) then []
                else [''Credentials must be a dictionary''])))"

definition is_valid :: "node \<Rightarrow> error + bool" where
  "is_valid self = (case Node_validate self of Inl e \<Rightarrow> Inl e | Inr errors \<Rightarrow> Inr (errors = []))"

text \<open>\<^verbatim>\<open>Node.__eq__\<close>: two nodes are equal when their ids are.\<close>

definition node_eq :: "node \<Rightarrow> node \<Rightarrow> bool" where
  "node_eq a b = (n_id a = n_id b)"

section \<open>Workflow\<close>

text \<open>
  The attributes of a \<^verbatim>\<open>Workflow\<close>. The constructor fills \<^verbatim>\<open>connections\<close>, \<^verbatim>\<open>active\<close>,
  \<^verbatim>\<open>settings\<close>, \<^verbatim>\<open>tags\<close> and the two timestamps with a dict, a bool, a dict, a list and two
  strings; \<^verbatim>\<open>from_dict\<close> overwrites them with whatever the document holds, so they are
  Python values here.
\<close>

record workflow =
  w_id :: string
  w_name :: string
  nodes :: "node list"
  connections :: pyval
  active :: pyval
  settings :: pyval
  tags :: pyval
  created_at :: pyval
  updated_at :: pyval

text \<open>A text between single quotes, as the messages print names.\<close>

definition quoted :: "string \<Rightarrow> string" where
  "quoted s = [CHR 0x27] @ s @ [CHR 0x27]"

text \<open>
  \<^verbatim>\<open>Workflow.__init__(name, workflow_id)\<close>, with the text of \<^verbatim>\<open>str(uuid.uuid4())\<close> and of
  \<^verbatim>\<open>datetime.now().isoformat()\<close> as the first two arguments.
\<close>

definition Workflow_init ::
  "string \<Rightarrow> string \<Rightarrow> pyval \<Rightarrow> pyval \<Rightarrow> (error + workflow) \<times> event list" where
  "Workflow_init uuid now name workflow_id =
     (case is_blank name of
        Inl e \<Rightarrow> (Inl e, [])
      | Inr True \<Rightarrow>
          (Inl (SDKError WorkflowError ''Workflow name cannot be empty''
                  (Some WORKFLOW_INVALID_NAME)), [])
      | Inr False \<Rightarrow>
     (case id_or_fresh workflow_id uuid of
        Inl e \<Rightarrow> (Inl e, [])
      | Inr i \<Rightarrow>
          (let self = \<lparr> w_id = i,
                        w_name = py_strip name,
                        nodes = [],
                        connections = PDict [],
                        active = PBool True,
                        settings = PDict [],
                        tags = PList [],
                        created_at = PStr now,
                        updated_at = PStr now \<rparr>
           in (Inr self,
               [(INFO, ''Created new workflow: '' @ quoted (w_name self) @ '' (ID: ''
                         @ w_id self @ '')'')]))))"

text \<open>
  \<^verbatim>\<open>Workflow.add_node\<close>. The argument is a \<^typ>\<open>node\<close>, so the \<^verbatim>\<open>isinstance\<close> test of the
  source passes. The result is the exception or \<^verbatim>\<open>None\<close>, the workflow afterwards and
  the log records written.
\<close>

definition add_node ::
  "string \<Rightarrow> node \<Rightarrow> workflow \<Rightarrow> (error + unit) \<times> workflow \<times> event list" where
  "add_node now node self =
     (if list_ex (\<lambda>existing_node. n_id existing_node = n_id node) (nodes self) then
        (let error_msg = ''Node with ID '' @ quoted (n_id node) @ '' already exists in workflow''
         in (Inl (SDKError WorkflowError error_msg (Some WORKFLOW_DUPLICATE_NODE)),
             self,
             [(ERROR, ''Failed to add node to workflow '' @ quoted (w_name self) @ '': ''
                        @ error_msg)]))
      else
        (Inr (),
         self\<lparr> nodes := nodes self @ [node], updated_at := PStr now \<rparr>,
         (if list_ex (\<lambda>existing_node. n_name existing_node = n_name node) (nodes self)
          then [(WARNING, ''Adding node to workflow '' @ quoted (w_name self) @ '': ''
                   @ ''Node with name '' @ quoted (n_name node)
                   @ '' already exists in workflow'')]
          else [])
         @ [(DEBUG, ''Added node '' @ quoted (n_name node) @ '' (ID: '' @ n_id node
                      @ '', Type: '' @ n_type node @ '') to workflow ''
                      @ quoted (w_name self))]))"

text \<open>
  \<^verbatim>\<open>Workflow.add_nodes\<close>: each node comes with the time of its own \<^verbatim>\<open>add_node\<close> call. The
  first exception ends the loop; the nodes added before it stay.
\<close>

fun add_nodes ::
  "(string \<times> node) list \<Rightarrow> workflow \<Rightarrow> (error + unit) \<times> workflow \<times> event list" where
  "add_nodes [] self = (Inr (), self, [])"
| "add_nodes ((now, node) # rest) self =
     (case add_node now node self of
        (Inl e, self', ev) \<Rightarrow> (Inl e, self', ev)
      | (Inr u, self', ev) \<Rightarrow>
          (case add_nodes rest self' of (r, self'', ev') \<Rightarrow> (r, self'', ev @ ev')))"

subsection \<open>Connecting two nodes\<close>

text \<open>\<^verbatim>\<open>while len(slots) <= output_index: slots.append([])\<close>.\<close>

function grow :: "pyval list \<Rightarrow> int \<Rightarrow> pyval list" where
  "grow slots output_index =
     (if int (length slots) \<le> output_index then grow (slots @ [PList []]) output_index
      else slots)"
  by pat_completeness auto
termination
  by (relation "measure (\<lambda>(slots, output_index). nat (output_index + 1 - int (length slots)))")
     auto

declare grow.simps [simp del]

text \<open>
  \<^verbatim>\<open>slots[i]\<close> on a list: a negative index counts from the end; the position read, or
  nothing where Python raises \<^verbatim>\<open>IndexError\<close>.
\<close>

definition py_index :: "'a list \<Rightarrow> int \<Rightarrow> nat option" where
  "py_index xs i =
     (if 0 \<le> i \<and> i < int (length xs) then Some (nat i)
      else if i < 0 \<and> - int (length xs) \<le> i then Some (nat (int (length xs) + i))
      else None)"

text \<open>
  What the slot statements raise when \<^verbatim>\<open>connections[source][output_type]\<close> is not a list:
  \<^verbatim>\<open>len\<close> fails on a value without a length; a string or a dict has a length but no
  \<^verbatim>\<open>append\<close>, and when the loop is not entered the subscript is tried: a character of the
  string (which has no \<^verbatim>\<open>append\<close> either, or is out of range), or an integer key that a
  dict with string keys does not hold.
\<close>

fun not_a_list_error :: "pyval \<Rightarrow> int \<Rightarrow> builtin" where
  "not_a_list_error (PStr s) output_index =
     (if int (length s) \<le> output_index then AttributeError
      else if py_index s output_index = None then IndexError else AttributeError)"
| "not_a_list_error (PDict kvs) output_index =
     (if int (length kvs) \<le> output_index then AttributeError else KeyError)"
| "not_a_list_error v output_index = TypeError"

text \<open>
  \<^verbatim>\<open>Workflow.connect\<close> updates \<^verbatim>\<open>self.connections\<close> in place, three containers deep:
  the mapping of source names, the mapping of output types of the source, and the list
  of slots of the output type. Each of the next three functions is the work of the
  method on one of them: it takes the container as found and returns it as the method
  leaves it, with the exception if one is raised there. An exception raised further in
  leaves the entries created before it.

  The list of slots: the \<^verbatim>\<open>while\<close> loop, then
  \<^verbatim>\<open>slots[output_index].append(connection)\<close>. A slot that is not a list has no
  \<^verbatim>\<open>append\<close>.
\<close>

definition slots_append :: "int \<Rightarrow> pyval \<Rightarrow> pyval \<Rightarrow> (error + unit) \<times> pyval" where
  "slots_append output_index connection slots =
     (case slots of
        PList l0 \<Rightarrow>
          (let l1 = grow l0 output_index
           in case py_index l1 output_index of
                None \<Rightarrow> (Inl (Builtin IndexError), PList l1)
              | Some j \<Rightarrow>
                  (case l1 ! j of
                     PList slot \<Rightarrow> (Inr (), PList (l1[j := PList (slot @ [connection])]))
                   | _ \<Rightarrow> (Inl (Builtin AttributeError), PList l1)))
      | _ \<Rightarrow> (Inl (Builtin (not_a_list_error slots output_index)), slots))"

text \<open>
  The mapping of output types: \<^verbatim>\<open>if output_type not in outputs: outputs[output_type] =
  []\<close>, then the slots. A value that is not a dict raises \<^verbatim>\<open>TypeError\<close>, at the \<^verbatim>\<open>in\<close>
  test or at the subscript with a string that follows it, before anything is written.
\<close>

definition outputs_append ::
  "string \<Rightarrow> int \<Rightarrow> pyval \<Rightarrow> pyval \<Rightarrow> (error + unit) \<times> pyval" where
  "outputs_append output_type output_index connection outputs =
     (case outputs of
        PDict d0 \<Rightarrow>
          (let d1 = (if map_of d0 output_type = None
                     then AList.update output_type (PList []) d0 else d0)
           in case map_of d1 output_type of
                None \<Rightarrow> (Inl (Builtin KeyError), PDict d1)
              | Some slots \<Rightarrow>
                  (case slots_append output_index connection slots of
                     (r, slots') \<Rightarrow> (r, PDict (AList.update output_type slots' d1))))
      | _ \<Rightarrow> (Inl (Builtin TypeError), outputs))"

text \<open>
  The mapping of source names: \<^verbatim>\<open>if source_name not in self.connections:
  self.connections[source_name] = {}\<close>, then the output types of the source.
\<close>

definition connections_append ::
  "string \<Rightarrow> string \<Rightarrow> int \<Rightarrow> pyval \<Rightarrow> pyval \<Rightarrow> (error + unit) \<times> pyval" where
  "connections_append source_name output_type output_index connection conns =
     (case conns of
        PDict c0 \<Rightarrow>
          (let c1 = (if map_of c0 source_name = None
                     then AList.update source_name (PDict []) c0 else c0)
           in case map_of c1 source_name of
                None \<Rightarrow> (Inl (Builtin KeyError), PDict c1)
              | Some outputs \<Rightarrow>
                  (case outputs_append output_type output_index connection outputs of
                     (r, outputs') \<Rightarrow> (r, PDict (AList.update source_name outputs' c1))))
      | _ \<Rightarrow> (Inl (Builtin TypeError), conns))"

text \<open>
  \<^verbatim>\<open>if target_name not in self.connections: self.connections[target_name] = {"main":
  [[]]}\<close>, reached with a dict.
\<close>

definition seed_target :: "string \<Rightarrow> pyval \<Rightarrow> pyval" where
  "seed_target target_name conns =
     (case conns of
        PDict c \<Rightarrow>
          (if map_of c target_name = None
           then PDict (AList.update target_name (PDict [(''main'', PList [PList []])]) c)
           else conns)
      | _ \<Rightarrow> conns)"

text \<open>
  \<^verbatim>\<open>Workflow.connect\<close>. Membership \<^verbatim>\<open>node in self.nodes\<close> compares with \<^verbatim>\<open>Node.__eq__\<close>.
  The result is the exception or \<^verbatim>\<open>None\<close>, the workflow as the call leaves it and the
  log records written.
\<close>

definition connect ::
  "string \<Rightarrow> node \<Rightarrow> node \<Rightarrow> string \<Rightarrow> string \<Rightarrow> int \<Rightarrow> int \<Rightarrow> workflow
     \<Rightarrow> (error + unit) \<times> workflow \<times> event list" where
  "connect now from_node to_node output_type input_type output_index input_index self =
     (if \<not> list_ex (node_eq from_node) (nodes self) then
        (let error_msg = ''Source node '' @ quoted (n_name from_node) @ '' is not in the workflow''
         in (Inl (SDKError WorkflowError error_msg (Some CONNECTION_SOURCE_NOT_FOUND)),
             self,
             [(ERROR, ''Failed to create connection in workflow '' @ quoted (w_name self)
                        @ '': '' @ error_msg)]))
      else if \<not> list_ex (node_eq to_node) (nodes self) then
        (let error_msg = ''Target node '' @ quoted (n_name to_node) @ '' is not in the workflow''
         in (Inl (SDKError WorkflowError error_msg (Some CONNECTION_TARGET_NOT_FOUND)),
             self,
             [(ERROR, ''Failed to create connection in workflow '' @ quoted (w_name self)
                        @ '': '' @ error_msg)]))
      else
        (let source_name = n_name from_node;
             connection = PDict [(''node'', PStr (n_name to_node)),
                                 (''type'', PStr input_type),
                                 (''index'', PInt input_index)]
         in case connections_append source_name output_type output_index connection
                   (connections self) of
              (Inl e, conns) \<Rightarrow> (Inl e, self\<lparr> connections := conns \<rparr>, [])
            | (Inr u, conns) \<Rightarrow>
                (let target_name = n_name to_node
                 in (Inr (),
                     self\<lparr> connections := seed_target target_name conns,
                           updated_at := PStr now \<rparr>,
                     [(DEBUG, ''Connected '' @ quoted (n_name from_node) @ '' to ''
                          @ quoted (n_name to_node) @ '' in workflow ''
                          @ quoted (w_name self) @ '' (output: '' @ output_type
                          @ ''['' @ str_int output_index @ ''] -> input: ''
                          @ input_type @ ''['' @ str_int input_index @ ''])'')]))))"

subsection \<open>Validation\<close>

text \<open>A loop whose body may raise: the results in order, or the first exception.\<close>

fun map_result :: "('a \<Rightarrow> error + 'b) \<Rightarrow> 'a list \<Rightarrow> error + 'b list" where
  "map_result f [] = Inr []"
| "map_result f (x # xs) =
     (case f x of
        Inl e \<Rightarrow> Inl e
      | Inr y \<Rightarrow> (case map_result f xs of Inl e \<Rightarrow> Inl e | Inr ys \<Rightarrow> Inr (y # ys)))"

text \<open>A loop that appends messages to \<^verbatim>\<open>errors\<close>.\<close>

definition collect :: "('a \<Rightarrow> error + string list) \<Rightarrow> 'a list \<Rightarrow> error + string list" where
  "collect f xs = (case map_result f xs of Inl e \<Rightarrow> Inl e | Inr ess \<Rightarrow> Inr (concat ess))"

text \<open>
  The innermost loop body of \<^verbatim>\<open>Workflow.validate\<close>: a connection that is a dict with a
  \<^verbatim>\<open>node\<close> key is tested against the set of node names. The test hashes the value, so a
  list or a dict raises \<^verbatim>\<open>TypeError\<close>; only a string can be in the set.
\<close>

definition connection_errors :: "string list \<Rightarrow> pyval \<Rightarrow> error + string list" where
  "connection_errors node_names connection =
     (case connection of
        PDict kvs \<Rightarrow>
          (case map_of kvs ''node'' of
             None \<Rightarrow> Inr []
           | Some target_name \<Rightarrow>
               if is_list target_name \<or> is_dict target_name then Inl (Builtin TypeError)
               else if target_name \<in> PStr ` set node_names then Inr []
               else Inr [''Connection target '' @ quoted (py_format target_name)
                           @ '' does not exist''])
      | _ \<Rightarrow> Inr [])"

definition group_errors :: "string list \<Rightarrow> pyval \<Rightarrow> error + string list" where
  "group_errors node_names output_group =
     (case py_iter output_group of
        Inl e \<Rightarrow> Inl e
      | Inr cs \<Rightarrow> collect (connection_errors node_names) cs)"

definition output_errors :: "string list \<Rightarrow> string \<times> pyval \<Rightarrow> error + string list" where
  "output_errors node_names item =
     (case py_iter (snd item) of
        Inl e \<Rightarrow> Inl e
      | Inr output_groups \<Rightarrow> collect (group_errors node_names) output_groups)"

definition source_errors :: "string list \<Rightarrow> string \<times> pyval \<Rightarrow> error + string list" where
  "source_errors node_names item =
     (case snd item of
        PDict outputs \<Rightarrow>
          (case collect (output_errors node_names) outputs of
             Inl e \<Rightarrow> Inl e
           | Inr es \<Rightarrow>
               Inr ((if fst item \<in> set node_names then []
                     else [''Connection source '' @ quoted (fst item) @ '' does not exist''])
                    @ es))
      | _ \<Rightarrow> Inl (Builtin AttributeError))"

definition indexed_node_errors :: "nat \<times> node \<Rightarrow> error + string list" where
  "indexed_node_errors item =
     (case Node_validate (snd item) of
        Inl e \<Rightarrow> Inl e
      | Inr node_errors \<Rightarrow>
          Inr (map (\<lambda>error. ''Node '' @ str_int (int (fst item) + 1) @ '' (''
                              @ n_name (snd item) @ ''): '' @ error) node_errors))"

text \<open>
  \<^verbatim>\<open>Workflow.validate\<close>. It returns the list of problems, unless a node's \<^verbatim>\<open>validate\<close>
  raises or \<^verbatim>\<open>connections\<close> is not made of dicts and iterables where the loops need them.
\<close>

definition Workflow_validate :: "workflow \<Rightarrow> error + string list" where
  "Workflow_validate self =
     (let node_ids = map n_id (nodes self);
          node_names = map n_name (nodes self);
          errors = (if w_name self = [] then [''Workflow name is required''] else [])
                 @ (if nodes self = [] then [''Workflow must contain at least one node'']
                    else [])
                 @ (if length node_ids \<noteq> card (set node_ids) then [''Duplicate node IDs found'']
                    else [])
                 @ (if length node_names \<noteq> card (set node_names)
                    then [''Duplicate node names found''] else [])
      in case collect indexed_node_errors (enumerate 0 (nodes self)) of
           Inl e \<Rightarrow> Inl e
         | Inr node_errors \<Rightarrow>
             (case connections self of
                PDict items \<Rightarrow>
                  (case collect (source_errors node_names) items of
                     Inl e \<Rightarrow> Inl e
                   | Inr connection_errs \<Rightarrow> Inr (errors @ node_errors @ connection_errs))
              | _ \<Rightarrow> Inl (Builtin AttributeError)))"

subsection \<open>The document\<close>

text \<open>\<^verbatim>\<open>Workflow.to_dict\<close>; it raises where a node's \<^verbatim>\<open>to_dict\<close> does.\<close>

definition Workflow_to_dict :: "workflow \<Rightarrow> error + pyval" where
  "Workflow_to_dict self =
     (case map_result Node_to_dict (nodes self) of
        Inl e \<Rightarrow> Inl e
      | Inr node_dicts \<Rightarrow>
          Inr (PDict [(''id'', PStr (w_id self)),
                      (''name'', PStr (w_name self)),
                      (''nodes'', PList node_dicts),
                      (''connections'', connections self),
                      (''active'', active self),
                      (''settings'', settings self),
                      (''tags'', tags self),
                      (''createdAt'', created_at self),
                      (''updatedAt'', updated_at self),
                      (''pinData'', PDict []),
                      (''meta'', PDict [(''instanceId'', PStr (w_id self))])]))"

text \<open>
  The loop of \<^verbatim>\<open>Workflow.from_dict\<close> over the node fragments. The first argument gives,
  for the position of a fragment, the text \<^verbatim>\<open>uuid4\<close> would generate for it.
\<close>

fun import_nodes ::
  "(nat \<Rightarrow> string) \<Rightarrow> nat \<Rightarrow> pyval list \<Rightarrow> (error + node list) \<times> event list" where
  "import_nodes uuids i [] = (Inr [], [])"
| "import_nodes uuids i (node_data # rest) =
     (case Node_from_dict (uuids i) node_data of
        (Inl e, ev) \<Rightarrow> (Inl e, ev)
      | (Inr node, ev) \<Rightarrow>
          (case import_nodes uuids (Suc i) rest of
             (Inl e, ev') \<Rightarrow> (Inl e, ev @ ev')
           | (Inr ns, ev') \<Rightarrow> (Inr (node # ns), ev @ ev')))"

text \<open>
  \<^verbatim>\<open>Workflow.from_dict\<close>: the constructor, then the attributes read with \<^verbatim>\<open>get\<close>, the
  nodes appended directly to \<^verbatim>\<open>workflow.nodes\<close>, and \<^verbatim>\<open>connections\<close> assigned as found.
\<close>

definition Workflow_from_dict ::
  "string \<Rightarrow> (nat \<Rightarrow> string) \<Rightarrow> string \<Rightarrow> pyval \<Rightarrow> (error + workflow) \<times> event list" where
  "Workflow_from_dict uuid uuids now data =
     (case data of
        PDict kvs \<Rightarrow>
          (case Workflow_init uuid now (dict_get kvs ''name'' (PStr ''Imported Workflow''))
                  (dict_get kvs ''id'' PNone) of
             (Inl e, ev) \<Rightarrow> (Inl e, ev)
           | (Inr created, ev) \<Rightarrow>
               (let workflow = created\<lparr>
                      active := dict_get kvs ''active'' (PBool True),
                      settings := dict_get kvs ''settings'' (PDict []),
                      tags := dict_get kvs ''tags'' (PList []),
                      created_at := dict_get kvs ''createdAt'' (created_at created),
                      updated_at := dict_get kvs ''updatedAt'' (updated_at created) \<rparr>
                in case py_iter (dict_get kvs ''nodes'' (PList [])) of
                     Inl e \<Rightarrow> (Inl e, ev)
                   | Inr nodes_data \<Rightarrow>
                       (case import_nodes uuids 0 nodes_data of
                          (Inl e, ev') \<Rightarrow> (Inl e, ev @ ev')
                        | (Inr ns, ev') \<Rightarrow>
                            (Inr (workflow\<lparr>
                                    nodes := nodes workflow @ ns,
                                    connections := dict_get kvs ''connections'' (PDict []) \<rparr>),
                             ev @ ev'))))
      | _ \<Rightarrow> (Inl (Builtin AttributeError), []))"

subsection \<open>Export\<close>

text \<open>
  What \<^verbatim>\<open>export\<close> asks of its surroundings: the directory \<^verbatim>\<open>os.path.dirname(
  os.path.abspath(file_path))\<close>; whether \<^verbatim>\<open>os.makedirs\<close>, \<^verbatim>\<open>open(file_path, 'w')\<close> and the
  writes of \<^verbatim>\<open>json.dump\<close> fail, and with which \<^verbatim>\<open>OSError\<close> text; and the text the
  interpreter gives a built-in exception.
\<close>

record os_env =
  abs_dirname :: "string \<Rightarrow> string"
  makedirs_error :: "string \<Rightarrow> string option"
  open_error :: "string \<Rightarrow> string option"
  dump_error :: "string \<Rightarrow> string option"
  exc_text :: "builtin \<Rightarrow> string"

text \<open>
  What \<^verbatim>\<open>export\<close> does to the file system, in order: the directory made, the file opened
  for writing (created or truncated), and the document written to it, indented or not.
\<close>

datatype fs_effect = MakeDirs string | OpenForWriting string | JsonDump string pyval bool

text \<open>\<^verbatim>\<open>str(e)\<close>; \<^verbatim>\<open>SDKError.__str__\<close> puts a truthy code in brackets before the message.\<close>

definition error_str :: "os_env \<Rightarrow> error \<Rightarrow> string" where
  "error_str env e =
     (case e of
        SDKError c message code \<Rightarrow>
          (case code of
             Some k \<Rightarrow> if k \<noteq> [] then ''['' @ k @ ''] '' @ message else message
           | None \<Rightarrow> message)
      | ValueError message \<Rightarrow> message
      | OSError message \<Rightarrow> message
      | Builtin b \<Rightarrow> exc_text env b
      | OutsideAnnotation field \<Rightarrow> [])"

text \<open>The statements under \<^verbatim>\<open>try\<close>, up to the first exception.\<close>

definition export_try ::
  "os_env \<Rightarrow> string \<Rightarrow> string \<Rightarrow> bool \<Rightarrow> bool \<Rightarrow> workflow
     \<Rightarrow> (error + unit) \<times> workflow \<times> event list \<times> fs_effect list" where
  "export_try env now file_path pretty validate self =
     (let dir_path = abs_dirname env file_path in
      case (if dir_path \<noteq> [] then makedirs_error env dir_path else None) of
        Some msg \<Rightarrow> (Inl (OSError msg), self, [], [])
      | None \<Rightarrow>
     (let fx1 = (if dir_path \<noteq> [] then [MakeDirs dir_path] else []);
          ev1 = (if dir_path \<noteq> [] then [(DEBUG, ''Created directory: '' @ dir_path)] else []);
          ev2 = ev1 @ (if validate
                       then [(DEBUG, ''Validating workflow '' @ quoted (w_name self)
                                       @ '' before export'')]
                       else [])
      in
      case (if validate then Workflow_validate self else Inr []) of
        Inl e \<Rightarrow> (Inl e, self, ev2, fx1)
      | Inr validation_errors \<Rightarrow>
          if validation_errors \<noteq> [] then
            (let error_msg = ''Workflow validation failed: '' @ join '', '' validation_errors
             in (Inl (SDKError ValidationError error_msg (Some EXPORT_VALIDATION_ERROR)),
                 self,
                 ev2 @ [(ERROR, ''Export failed for workflow '' @ quoted (w_name self) @ '': ''
                                  @ error_msg)],
                 fx1))
          else
     (let ev3 = ev2 @ (if validate
                       then [(DEBUG, ''Workflow '' @ quoted (w_name self)
                                       @ '' validation passed'')]
                       else [])
      in
      case Workflow_to_dict self of
        Inl e \<Rightarrow> (Inl e, self, ev3, fx1)
      | Inr workflow_dict \<Rightarrow>
     (let ev4 = ev3 @ [(DEBUG, ''Converted workflow '' @ quoted (w_name self)
                                 @ '' to dictionary format'')]
      in
      case open_error env file_path of
        Some msg \<Rightarrow> (Inl (OSError msg), self, ev4, fx1)
      | None \<Rightarrow>
     (case dump_error env file_path of
        Some msg \<Rightarrow> (Inl (OSError msg), self, ev4, fx1 @ [OpenForWriting file_path])
      | None \<Rightarrow>
          (Inr (),
           self\<lparr> updated_at := PStr now \<rparr>,
           ev4 @ [(INFO, ''Successfully exported workflow '' @ quoted (w_name self) @ '' to ''
                           @ file_path)],
           fx1 @ [OpenForWriting file_path, JsonDump file_path workflow_dict pretty]))))))"

text \<open>
  \<^verbatim>\<open>Workflow.export\<close>: the three handlers in the order of the source. \<^verbatim>\<open>except IOError\<close>
  takes an \<^verbatim>\<open>OSError\<close>; \<^verbatim>\<open>except (ValueError, TypeError)\<close> takes those two;
  \<^verbatim>\<open>except Exception\<close> takes every other exception raised under \<^verbatim>\<open>try\<close>, the
  \<^verbatim>\<open>ValidationError\<close> raised there included.
\<close>

definition export ::
  "os_env \<Rightarrow> string \<Rightarrow> string \<Rightarrow> bool \<Rightarrow> bool \<Rightarrow> workflow
     \<Rightarrow> (error + unit) \<times> workflow \<times> event list \<times> fs_effect list" where
  "export env now file_path pretty validate self =
     (let start = (INFO, ''Starting export of workflow '' @ quoted (w_name self) @ '' to ''
                           @ file_path)
      in case export_try env now file_path pretty validate self of
        (Inr u, self', ev, fx) \<Rightarrow> (Inr u, self', start # ev, fx)
      | (Inl e, self', ev, fx) \<Rightarrow>
          (case e of
             OSError m \<Rightarrow>
               (let error_msg = ''Failed to export workflow to '' @ file_path @ '': ''
                                @ error_str env e
                in (Inl (SDKError ExportError error_msg (Some EXPORT_FILE_ERROR)), self',
                    start # ev @ [(ERROR, error_msg)], fx))
           | OutsideAnnotation field \<Rightarrow> (Inl e, self', start # ev, fx)
           | _ \<Rightarrow>
               if (case e of ValueError m \<Rightarrow> True | Builtin b \<Rightarrow> b = TypeError | _ \<Rightarrow> False) then
                 (let error_msg = ''JSON serialization failed: '' @ error_str env e
                  in (Inl (SDKError ExportError error_msg (Some EXPORT_SERIALIZATION_ERROR)),
                      self',
                      start # ev @ [(ERROR, ''Export failed for workflow ''
                                       @ quoted (w_name self) @ '': '' @ error_msg)], fx))
               else
                 (let error_msg = ''Export failed: '' @ error_str env e
                  in (Inl (SDKError ExportError error_msg None), self',
                      start # ev @ [(ERROR, ''Unexpected error during export of workflow ''
                                       @ quoted (w_name self) @ '': '' @ error_msg)], fx))))"

section \<open>The document-structure checker\<close>

text \<open>
  \<^verbatim>\<open>validate_workflow_structure\<close> of \<^verbatim>\<open>utils/json_parser.py\<close> returns \<^verbatim>\<open>True\<close> or raises
  \<^verbatim>\<open>ValueError\<close>. The messages print lists of missing keys; the keys are the literals
  of the source, whose \<^verbatim>\<open>repr\<close> is the key between single quotes.
\<close>

definition repr_keys :: "string list \<Rightarrow> string" where
  "repr_keys keys = ''['' @ join '', '' (map quoted keys) @ '']''"

text \<open>\<^verbatim>\<open>d[key]\<close> on the items of a dict.\<close>

definition dict_item :: "(string \<times> pyval) list \<Rightarrow> string \<Rightarrow> error + pyval" where
  "dict_item kvs key = (case map_of kvs key of None \<Rightarrow> Inl (Builtin KeyError) | Some v \<Rightarrow> Inr v)"

text \<open>The body of the loop over \<^verbatim>\<open>enumerate(nodes)\<close>.\<close>

definition check_node :: "nat \<times> pyval \<Rightarrow> error + unit" where
  "check_node item =
     (let i = str_int (int (fst item)) in
      case snd item of
        PDict node \<Rightarrow>
          (let missing_node_keys =
                 filter (\<lambda>key. map_of node key = None) [''id'', ''name'', ''type'', ''position'']
           in if missing_node_keys \<noteq> [] then
                Inl (ValueError (''Node '' @ i @ '' missing required keys: ''
                                   @ repr_keys missing_node_keys))
              else if \<not> is_str (dict_get node ''id'' PNone) then
                Inl (ValueError (''Node '' @ i @ '' id must be a string''))
              else if \<not> is_str (dict_get node ''name'' PNone) then
                Inl (ValueError (''Node '' @ i @ '' name must be a string''))
              else if \<not> is_str (dict_get node ''type'' PNone) then
                Inl (ValueError (''Node '' @ i @ '' type must be a string''))
              else if (case dict_get node ''position'' PNone of
                         PList p \<Rightarrow> length p \<noteq> 2 | _ \<Rightarrow> True) then
                Inl (ValueError (''Node '' @ i @ '' position must be a list of 2 numbers''))
              else Inr ())
      | _ \<Rightarrow> Inl (ValueError (''Node '' @ i @ '' must be a dictionary'')))"

text \<open>\<^verbatim>\<open>node["name"]\<close> for the set \<^verbatim>\<open>{node["name"] for node in nodes}\<close>, built after every
  node has passed \<^const>\<open>check_node\<close>.\<close>

definition node_name_of :: "pyval \<Rightarrow> pyval" where
  "node_name_of node = (case node of PDict kvs \<Rightarrow> dict_get kvs ''name'' PNone | _ \<Rightarrow> PNone)"

text \<open>The body of the loop over one slot, \<^verbatim>\<open>for conn in conn_group\<close>.\<close>

definition check_conn :: "pyval list \<Rightarrow> pyval \<Rightarrow> error + unit" where
  "check_conn node_names conn =
     (case conn of
        PDict kvs \<Rightarrow>
          (case map_of kvs ''node'' of
             None \<Rightarrow> Inl (ValueError (''Connection missing '' @ quoted ''node'' @ '' key''))
           | Some target \<Rightarrow>
               if is_list target \<or> is_dict target then Inl (Builtin TypeError)
               else if target \<notin> set node_names then
                 Inl (ValueError (''Connection target node '' @ quoted (py_format target)
                                    @ '' not found in workflow nodes''))
               else Inr ())
      | _ \<Rightarrow> Inl (ValueError ''Connection must be a dictionary''))"

text \<open>The body of \<^verbatim>\<open>for conn_group in main_connections\<close>: a group that is not a list is
  passed over.\<close>

definition check_group :: "pyval list \<Rightarrow> pyval \<Rightarrow> error + unit" where
  "check_group node_names conn_group =
     (case conn_group of
        PList conns \<Rightarrow>
          (case map_result (check_conn node_names) conns of Inl e \<Rightarrow> Inl e | Inr us \<Rightarrow> Inr ())
      | _ \<Rightarrow> Inr ())"

text \<open>The body of \<^verbatim>\<open>for source_node, connection_data in connections.items()\<close>.\<close>

definition check_source :: "pyval list \<Rightarrow> string \<times> pyval \<Rightarrow> error + unit" where
  "check_source node_names item =
     (let source_node = fst item in
      if PStr source_node \<notin> set node_names then
        Inl (ValueError (''Connection source node '' @ quoted source_node
                           @ '' not found in workflow nodes''))
      else
        case snd item of
          PDict connection_data \<Rightarrow>
            (case map_of connection_data ''main'' of
               None \<Rightarrow> Inr ()
             | Some (PList main_connections) \<Rightarrow>
                 (case map_result (check_group node_names) main_connections of
                    Inl e \<Rightarrow> Inl e
                  | Inr us \<Rightarrow> Inr ())
             | Some v \<Rightarrow>
                 Inl (ValueError (''Main connections for '' @ quoted source_node
                                    @ '' must be a list'')))
        | _ \<Rightarrow>
            Inl (ValueError (''Connection data for '' @ quoted source_node
                               @ '' must be a dictionary'')))"

definition validate_workflow_structure :: "pyval \<Rightarrow> error + bool" where
  "validate_workflow_structure data =
     (case data of
        PDict kvs \<Rightarrow>
          (let missing_keys = filter (\<lambda>key. map_of kvs key = None) [''nodes'', ''connections'']
           in if missing_keys \<noteq> [] then
                Inl (ValueError (''Missing required keys in workflow: '' @ repr_keys missing_keys))
              else
                case dict_item kvs ''nodes'' of
                  Inl e \<Rightarrow> Inl e
                | Inr (PList nodes') \<Rightarrow>
                    if length nodes' = 0 then
                      Inl (ValueError ''Workflow must contain at least one node'')
                    else
                      (case map_result check_node (enumerate 0 nodes') of
                         Inl e \<Rightarrow> Inl e
                       | Inr us \<Rightarrow>
                           (case dict_item kvs ''connections'' of
                              Inl e \<Rightarrow> Inl e
                            | Inr (PDict connections') \<Rightarrow>
                                (case map_result (check_source (map node_name_of nodes'))
                                        connections' of
                                   Inl e \<Rightarrow> Inl e
                                 | Inr us' \<Rightarrow> Inr True)
                            | Inr v \<Rightarrow> Inl (ValueError ''Connections must be a dictionary'')))
                | Inr v \<Rightarrow> Inl (ValueError ''Nodes must be a list''))
      | _ \<Rightarrow> Inl (ValueError ''Workflow data must be a dictionary''))"

section \<open>A session of calls\<close>

text \<open>
  A caller builds a workflow by a sequence of \<^verbatim>\<open>add_node\<close> and \<^verbatim>\<open>connect\<close> calls, each with
  its arguments and the time of the call. A call that raises is caught by the caller, and
  the next call meets the workflow as the failed one left it. \<^term>\<open>run calls self\<close> is the
  list of the outcomes, one for each call, and the workflow after the last call.
\<close>

datatype call = AddNode string node | Connect string node node string string int int

fun perform :: "call \<Rightarrow> workflow \<Rightarrow> (error + unit) \<times> workflow" where
  "perform (AddNode now node) self =
     (fst (add_node now node self), fst (snd (add_node now node self)))"
| "perform (Connect now from_node to_node output_type input_type output_index input_index) self =
     (fst (connect now from_node to_node output_type input_type output_index input_index self),
      fst (snd (connect now from_node to_node output_type input_type output_index input_index
                  self)))"

fun run :: "call list \<Rightarrow> workflow \<Rightarrow> (error + unit) list \<times> workflow" where
  "run [] self = ([], self)"
| "run (c # cs) self =
     (fst (perform c self) # fst (run cs (snd (perform c self))),
      snd (run cs (snd (perform c self))))"

text \<open>\<^verbatim>\<open>name in self.connections\<close>, for \<^verbatim>\<open>connections\<close> a dict.\<close>

definition has_entry :: "workflow \<Rightarrow> string \<Rightarrow> bool" where
  "has_entry self name =
     (case connections self of PDict c \<Rightarrow> map_of c name \<noteq> None | _ \<Rightarrow> False)"

section \<open>Workflows built through the public interface\<close>

text \<open>
  A node made by a caller: the result of \<^verbatim>\<open>Node(...)\<close> (also reached through the node
  classes of \<^verbatim>\<open>nodes/\<close>, which call it) on arguments of the annotated types, a string for
  the type and the name, \<^verbatim>\<open>None\<close> or a string for the id, \<^verbatim>\<open>None\<close> or a dict for the
  parameters and the credentials, \<^verbatim>\<open>None\<close> or a list for the position. The generated id is
  a text of 36 characters.
\<close>

inductive public_node :: "node \<Rightarrow> bool" where
  constructed:
    "length uuid = 36 \<Longrightarrow> node_id = PNone \<or> is_str node_id \<Longrightarrow>
     parameters' = PNone \<or> is_dict parameters' \<Longrightarrow>
     position' = PNone \<or> is_list position' \<Longrightarrow>
     credentials' = PNone \<or> is_dict credentials' \<Longrightarrow>
     Node_init uuid (PStr node_type) (PStr name) node_id type_version' parameters' position'
       credentials' = (Inr self, ev) \<Longrightarrow>
     public_node self"

text \<open>
  A workflow made by a caller: the result of \<^verbatim>\<open>Workflow(name, workflow_id)\<close>, then any
  number of \<^verbatim>\<open>add_node\<close>, \<^verbatim>\<open>connect\<close> and \<^verbatim>\<open>export\<close> calls, whether they return or
  raise (\<^verbatim>\<open>add_nodes\<close> is a run of \<^verbatim>\<open>add_node\<close> calls), and assignments to the
  pass-through attributes \<^verbatim>\<open>active\<close>, \<^verbatim>\<open>settings\<close> and \<^verbatim>\<open>tags\<close>, which have no setter.
\<close>

inductive built :: "workflow \<Rightarrow> bool" where
  created:
    "length uuid = 36 \<Longrightarrow> workflow_id = PNone \<or> is_str workflow_id \<Longrightarrow>
     Workflow_init uuid now (PStr name) workflow_id = (Inr self, ev) \<Longrightarrow> built self"
| added:
    "built self \<Longrightarrow> public_node node \<Longrightarrow> built (fst (snd (add_node now node self)))"
| connected:
    "built self \<Longrightarrow> public_node from_node \<Longrightarrow> public_node to_node \<Longrightarrow>
     built (fst (snd (connect now from_node to_node output_type input_type output_index
                        input_index self)))"
| exported:
    "built self \<Longrightarrow> built (fst (snd (export env now file_path pretty validate self)))"
| assigned:
    "built self \<Longrightarrow> built (self\<lparr> active := a, settings := s, tags := t \<rparr>)"

text \<open>What the constructors establish and the methods keep, and what the way back from
  the document needs.\<close>

definition node_invariant :: "node \<Rightarrow> bool" where
  "node_invariant n \<longleftrightarrow>
     n_id n \<noteq> [] \<and> n_type n \<noteq> [] \<and> strip (n_type n) = n_type n
     \<and> n_name n \<noteq> [] \<and> strip (n_name n) = n_name n
     \<and> is_list (position n) \<and> truthy (position n)
     \<and> (truthy (parameters n) \<or> parameters n = PDict [])
     \<and> (truthy (credentials n) \<or> credentials n = PDict [])"

definition workflow_invariant :: "workflow \<Rightarrow> bool" where
  "workflow_invariant w \<longleftrightarrow>
     w_id w \<noteq> [] \<and> w_name w \<noteq> [] \<and> strip (w_name w) = w_name w
     \<and> list_all node_invariant (nodes w)"

section \<open>Example values\<close>

text \<open>A generated identifier, two nodes of a small pipeline, and nodes that are not in it.\<close>

definition example_uuid :: string where
  "example_uuid = ''3f2b8c1e-5d4a-4b6f-9e0a-1c2d3e4f5a6b''"

definition start_node :: node where
  "start_node = \<lparr> n_id = ''n1'', n_type = ''n8n-nodes-base.manualTrigger'', n_name = ''Start'',
                   type_version = PInt 1, parameters = PDict [],
                   position = PList [PInt 0, PInt 0], credentials = PDict [] \<rparr>"

definition fetch_node :: node where
  "fetch_node = \<lparr> n_id = ''n2'', n_type = ''n8n-nodes-base.httpRequest'', n_name = ''Fetch'',
                   type_version = PFloat ''4.2'',
                   parameters = PDict [(''url'', PStr ''https://example.org'')],
                   position = PList [PInt 200, PInt 0], credentials = PDict [] \<rparr>"

text \<open>A node constructed but never added.\<close>

definition save_node :: node where
  "save_node = \<lparr> n_id = ''n3'', n_type = ''n8n-nodes-base.googleSheets'', n_name = ''Save'',
                  type_version = PFloat ''4.7'', parameters = PDict [],
                  position = PList [PInt 400, PInt 0], credentials = PDict [] \<rparr>"

text \<open>A new node with an id of its own and the name of \<^const>\<open>start_node\<close>.\<close>

definition namesake_node :: node where
  "namesake_node = \<lparr> n_id = ''n4'', n_type = ''n8n-nodes-base.httpRequest'', n_name = ''Start'',
                      type_version = PInt 1, parameters = PDict [],
                      position = PList [PInt 0, PInt 100], credentials = PDict [] \<rparr>"

text \<open>A new node with the id of \<^const>\<open>fetch_node\<close> and another name.\<close>

definition lookalike_node :: node where
  "lookalike_node = \<lparr> n_id = ''n2'', n_type = ''n8n-nodes-base.httpRequest'', n_name = ''Other'',
                       type_version = PInt 1, parameters = PDict [],
                       position = PList [PInt 0, PInt 0], credentials = PDict [] \<rparr>"

definition empty_workflow :: workflow where
  "empty_workflow = \<lparr> w_id = ''w1'', w_name = ''Test Workflow'', nodes = [],
                       connections = PDict [], active = PBool True, settings = PDict [],
                       tags = PList [], created_at = PStr ''2024-05-01T10:00:00'',
                       updated_at = PStr ''2024-05-01T10:00:00'' \<rparr>"

definition pipeline :: workflow where
  "pipeline = empty_workflow\<lparr> w_name := ''Pipeline'', nodes := [start_node, fetch_node],
                              updated_at := PStr ''2024-05-01T10:00:02'' \<rparr>"

text \<open>Surroundings in which no file operation fails.\<close>

definition quiet_env :: os_env where
  "quiet_env = \<lparr> abs_dirname = (\<lambda>file_path. ''/tmp/out''),
                  makedirs_error = (\<lambda>dir_path. None),
                  open_error = (\<lambda>file_path. None),
                  dump_error = (\<lambda>file_path. None),
                  exc_text = (\<lambda>b. []) \<rparr>"

text \<open>Node fragments of a document: a complete one, one without a type, one whose name
  is blank.\<close>

definition start_items :: "(string \<times> pyval) list" where
  "start_items = [(''id'', PStr ''n1''), (''name'', PStr '' Start ''),
                  (''type'', PStr ''n8n-nodes-base.manualTrigger''), (''typeVersion'', PInt 1),
                  (''position'', PList [PInt 0, PInt 0]), (''parameters'', PDict [])]"

definition no_type_items :: "(string \<times> pyval) list" where
  "no_type_items = [(''id'', PStr ''n1''), (''name'', PStr ''Start'')]"

definition blank_name_items :: "(string \<times> pyval) list" where
  "blank_name_items = [(''id'', PStr ''n1''), (''name'', PStr ''   ''),
                       (''type'', PStr ''n8n-nodes-base.set'')]"

text \<open>
  Documents for the structure checker: the node list of one agent node; a record that
  names a node the list does not hold; a document with no \<^verbatim>\<open>connections\<close> key; one with
  the record under the \<^verbatim>\<open>main\<close> port of the agent, and one with it under another port.
\<close>

definition agent_nodes :: "pyval list" where
  "agent_nodes = [PDict [(''id'', PStr ''n1''), (''name'', PStr ''Agent''),
                         (''type'', PStr ''@n8n/n8n-nodes-langchain.agent''),
                         (''typeVersion'', PInt 1),
                         (''position'', PList [PInt 0, PInt 0]),
                         (''parameters'', PDict [])]]"

definition calculator_record :: "(string \<times> pyval) list" where
  "calculator_record = [(''node'', PStr ''Calculator''), (''type'', PStr ''main''),
                        (''index'', PInt 0)]"

definition no_connections_items :: "(string \<times> pyval) list" where
  "no_connections_items = [(''name'', PStr ''Agent flow''), (''nodes'', PList agent_nodes)]"

definition dangling_main_items :: "(string \<times> pyval) list" where
  "dangling_main_items =
     [(''name'', PStr ''Agent flow''),
      (''nodes'', PList agent_nodes),
      (''connections'',
       PDict [(''Agent'', PDict [(''main'', PList [PList [PDict calculator_record]])])])]"

definition dangling_tool_document :: pyval where
  "dangling_tool_document =
     PDict [(''name'', PStr ''Agent flow''),
            (''nodes'', PList agent_nodes),
            (''connections'',
             PDict [(''Agent'', PDict [(''ai_tool'', PList [PList [PDict calculator_record]])])])]"

section \<open>Properties\<close>

subsection \<open>Auxiliary facts\<close>

lemma list_ex_node_eq: "list_ex (node_eq x) ns \<longleftrightarrow> n_id x \<in> n_id ` set ns"
  by (auto simp: list_ex_iff node_eq_def)

lemma list_ex_id: "list_ex (\<lambda>e. n_id e = n_id x) ns \<longleftrightarrow> n_id x \<in> n_id ` set ns"
  by (auto simp: list_ex_iff intro: rev_image_eqI)

lemma list_ex_name: "list_ex (\<lambda>e. n_name e = n_name x) ns \<longleftrightarrow> n_name x \<in> n_name ` set ns"
  by (auto simp: list_ex_iff intro: rev_image_eqI)

lemma strip_Nil [simp]: "strip [] = []"
  by (simp add: strip_def)

subsection \<open>Connecting a node that is not in the workflow\<close>

text \<open>
  C7. A \<^verbatim>\<open>connect\<close> call whose source has no node of equal id in \<^verbatim>\<open>nodes\<close> raises
  \<^verbatim>\<open>WorkflowError\<close> with the code \<^verbatim>\<open>CONNECTION_SOURCE_NOT_FOUND\<close>; with the source present
  and the target not, it raises \<^verbatim>\<open>WorkflowError\<close> with \<^verbatim>\<open>CONNECTION_TARGET_NOT_FOUND\<close>. In both
  cases the workflow after the call is the workflow before it, \<^verbatim>\<open>connections\<close> included,
  and one error record is logged.
\<close>

theorem connect_not_found:
  "(n_id from_node \<notin> n_id ` set (nodes self) \<longrightarrow>
      connect now from_node to_node output_type input_type output_index input_index self =
        (Inl (SDKError WorkflowError
               (''Source node '' @ quoted (n_name from_node) @ '' is not in the workflow'')
               (Some CONNECTION_SOURCE_NOT_FOUND)),
         self,
         [(ERROR, ''Failed to create connection in workflow '' @ quoted (w_name self) @ '': ''
                    @ ''Source node '' @ quoted (n_name from_node)
                    @ '' is not in the workflow'')]))
   \<and> (n_id from_node \<in> n_id ` set (nodes self) \<and> n_id to_node \<notin> n_id ` set (nodes self) \<longrightarrow>
      connect now from_node to_node output_type input_type output_index input_index self =
        (Inl (SDKError WorkflowError
               (''Target node '' @ quoted (n_name to_node) @ '' is not in the workflow'')
               (Some CONNECTION_TARGET_NOT_FOUND)),
         self,
         [(ERROR, ''Failed to create connection in workflow '' @ quoted (w_name self) @ '': ''
                    @ ''Target node '' @ quoted (n_name to_node)
                    @ '' is not in the workflow'')]))"
  by (simp add: connect_def list_ex_node_eq Let_def)

theorem connect_not_found_witness:
  "n_id save_node \<notin> n_id ` set (nodes pipeline)
   \<and> fst (connect ''2024-05-01T10:00:03'' save_node start_node ''main'' ''main'' 0 0 pipeline)
       = Inl (SDKError WorkflowError
               (''Source node '' @ quoted ''Save'' @ '' is not in the workflow'') (Some ''CN001''))
   \<and> fst (snd (connect ''2024-05-01T10:00:03'' save_node start_node ''main'' ''main'' 0 0
                  pipeline)) = pipeline
   \<and> n_id start_node \<in> n_id ` set (nodes pipeline)
   \<and> fst (connect ''2024-05-01T10:00:03'' start_node save_node ''main'' ''main'' 0 0 pipeline)
       = Inl (SDKError WorkflowError
               (''Target node '' @ quoted ''Save'' @ '' is not in the workflow'') (Some ''CN002''))
   \<and> connections (fst (snd (connect ''2024-05-01T10:00:03'' start_node save_node ''main''
                               ''main'' 0 0 pipeline))) = PDict []"
proof -
  have absent: "n_id save_node \<notin> n_id ` set (nodes pipeline)"
    and present: "n_id start_node \<in> n_id ` set (nodes pipeline)"
    by (simp_all add: pipeline_def empty_workflow_def start_node_def fetch_node_def save_node_def)
  have names: "n_name save_node = ''Save''" "connections pipeline = PDict []"
    by (simp_all add: pipeline_def empty_workflow_def start_node_def fetch_node_def save_node_def)
  show ?thesis
    using absent present names
      connect_not_found [of save_node pipeline "''2024-05-01T10:00:03''" start_node
        "''main''" "''main''" 0 0]
      connect_not_found [of start_node pipeline "''2024-05-01T10:00:03''" save_node
        "''main''" "''main''" 0 0]
    by (simp add: CONNECTION_SOURCE_NOT_FOUND_def CONNECTION_TARGET_NOT_FOUND_def)
qed

subsection \<open>Adding a node\<close>

text \<open>
  C6. \<^verbatim>\<open>add_node\<close> of a node whose id is the id of a node already present raises
  \<^verbatim>\<open>WorkflowError\<close> with the code \<^verbatim>\<open>WORKFLOW_DUPLICATE_NODE\<close> and leaves the workflow as it
  was. A node with a new id whose name is the name of a node already present is appended
  at the end of \<^verbatim>\<open>nodes\<close>; the call returns normally, and its log records hold a
  warning and no error.
\<close>

theorem add_node_duplicates:
  "(n_id node \<in> n_id ` set (nodes self) \<longrightarrow>
      (\<exists>msg. fst (add_node now node self) =
                Inl (SDKError WorkflowError msg (Some WORKFLOW_DUPLICATE_NODE)))
      \<and> fst (snd (add_node now node self)) = self)
   \<and> (n_id node \<notin> n_id ` set (nodes self) \<and> n_name node \<in> n_name ` set (nodes self) \<longrightarrow>
      fst (add_node now node self) = Inr ()
      \<and> nodes (fst (snd (add_node now node self))) = nodes self @ [node]
      \<and> (\<exists>msg. (WARNING, msg) \<in> set (snd (snd (add_node now node self))))
      \<and> (\<forall>msg. (ERROR, msg) \<notin> set (snd (snd (add_node now node self)))))"
  by (simp add: add_node_def list_ex_id list_ex_name Let_def)

theorem add_node_duplicates_witness:
  "n_id lookalike_node \<in> n_id ` set (nodes pipeline)
   \<and> (\<exists>msg. fst (add_node ''2024-05-01T10:00:03'' lookalike_node pipeline) =
               Inl (SDKError WorkflowError msg (Some ''WF003'')))
   \<and> nodes (fst (snd (add_node ''2024-05-01T10:00:03'' lookalike_node pipeline)))
       = [start_node, fetch_node]
   \<and> n_id namesake_node \<notin> n_id ` set (nodes pipeline)
   \<and> n_name namesake_node \<in> n_name ` set (nodes pipeline)
   \<and> fst (add_node ''2024-05-01T10:00:03'' namesake_node pipeline) = Inr ()
   \<and> nodes (fst (snd (add_node ''2024-05-01T10:00:03'' namesake_node pipeline)))
       = [start_node, fetch_node, namesake_node]"
proof -
  have dup: "n_id lookalike_node \<in> n_id ` set (nodes pipeline)"
    and fresh: "n_id namesake_node \<notin> n_id ` set (nodes pipeline)"
    and same_name: "n_name namesake_node \<in> n_name ` set (nodes pipeline)"
    by (simp_all add:
        pipeline_def empty_workflow_def start_node_def fetch_node_def lookalike_node_def
        namesake_node_def)
  have ns: "nodes pipeline = [start_node, fetch_node]"
    by (simp add:
        pipeline_def empty_workflow_def start_node_def fetch_node_def lookalike_node_def
        namesake_node_def)
  show ?thesis
    using dup fresh same_name ns
      add_node_duplicates [of lookalike_node pipeline "''2024-05-01T10:00:03''"]
      add_node_duplicates [of namesake_node pipeline "''2024-05-01T10:00:03''"]
    by (simp add: WORKFLOW_DUPLICATE_NODE_def)
qed

subsection \<open>Constructing a node\<close>

text \<open>
  C9. For strings \<open>node_type\<close> and \<open>name\<close> that are not empty after stripping,
  \<^verbatim>\<open>Node(node_type, name)\<close> with the other arguments at their defaults returns a node, and
  \<^verbatim>\<open>validate()\<close> on that node returns the empty list. The id is the generated one, a text
  of 36 characters.
\<close>

theorem node_construct_valid:
  assumes "strip node_type \<noteq> []" and "strip name \<noteq> []" and "length uuid = 36"
  shows "\<exists>self ev. Node_init uuid (PStr node_type) (PStr name) PNone (PInt 1) PNone PNone PNone
                     = (Inr self, ev)
                   \<and> Node_validate self = Inr []"
proof -
  from assms have "node_type \<noteq> []" "name \<noteq> []" "uuid \<noteq> []" by auto
  with assms show ?thesis
    by (simp add: Node_init_def is_blank_def id_or_fresh_def py_strip_def py_or_def Let_def
                  Node_validate_def position_errors_def)
qed

theorem node_construct_valid_witness:
  "strip ''n8n-nodes-base.httpRequest'' \<noteq> [] \<and> strip '' Fetch '' \<noteq> []
   \<and> length example_uuid = 36
   \<and> (\<exists>self ev. Node_init example_uuid (PStr ''n8n-nodes-base.httpRequest'') (PStr '' Fetch '')
                   PNone (PInt 1) PNone PNone PNone = (Inr self, ev)
                 \<and> Node_validate self = Inr [])"
proof -
  have t: "strip ''n8n-nodes-base.httpRequest'' \<noteq> []"
    and n: "strip '' Fetch '' \<noteq> []"
    by (simp_all add: strip_def py_isspace_def)
  have u: "length example_uuid = 36"
    by (simp add: example_uuid_def)
  from t n u node_construct_valid [OF t n u] show ?thesis
    by blast
qed

subsection \<open>The three containers of \<^verbatim>\<open>connections\<close>\<close>

lemma grow_eq: "grow slots i = slots @ replicate (nat (i + 1 - int (length slots))) (PList [])"
proof (induction slots i rule: grow.induct)
  case (1 slots i)
  show ?case
  proof (cases "int (length slots) \<le> i")
    case True
    then have "nat (i + 1 - int (length slots))
                 = Suc (nat (i + 1 - int (length (slots @ [PList []]))))"
      by simp
    with 1 True show ?thesis
      by (subst grow.simps) (simp add: replicate_app_Cons_same)
  next
    case False
    then show ?thesis by (subst grow.simps) simp
  qed
qed

lemma py_index_less: "py_index xs i = Some j \<Longrightarrow> j < length xs"
  by (auto simp: py_index_def split: if_splits)

lemma py_index_update [simp]: "py_index (xs[j := x]) i = py_index xs i"
  by (simp add: py_index_def)

lemma slots_append_Inr:
  assumes "slots_append oi conn slots = (Inr u, slots')"
  shows "\<exists>l j slot. slots' = PList l \<and> py_index l oi = Some j \<and> l ! j = PList (slot @ [conn])"
proof -
  from assms obtain l0 j slot where
    j: "py_index (grow l0 oi) oi = Some j" and
    s: "slots' = PList ((grow l0 oi)[j := PList (slot @ [conn])])"
    by (auto simp: slots_append_def Let_def split: pyval.splits option.splits)
  from j have "j < length (grow l0 oi)" by (rule py_index_less)
  with j s show ?thesis by auto
qed

lemma outputs_append_Inr:
  assumes "outputs_append ot oi conn outs = (Inr u, outs')"
  shows "\<exists>d l j slot. outs' = PDict d \<and> map_of d ot = Some (PList l)
            \<and> py_index l oi = Some j \<and> l ! j = PList (slot @ [conn])"
proof -
  from assms obtain d1 slots slots' where
    a: "slots_append oi conn slots = (Inr u, slots')" and
    o: "outs' = PDict (AList.update ot slots' d1)"
    by (auto simp: outputs_append_def Let_def split: pyval.splits option.splits prod.splits)
  from slots_append_Inr [OF a] o show ?thesis
    by (auto simp: update_conv')
qed

lemma connections_append_Inr:
  assumes "connections_append src ot oi conn conns = (Inr u, conns')"
  shows "\<exists>c d l j slot. conns' = PDict c \<and> map_of c src = Some (PDict d)
            \<and> map_of d ot = Some (PList l)
            \<and> py_index l oi = Some j \<and> l ! j = PList (slot @ [conn])"
proof -
  from assms obtain c1 outs outs' where
    a: "outputs_append ot oi conn outs = (Inr u, outs')" and
    o: "conns' = PDict (AList.update src outs' c1)"
    by (auto simp: connections_append_def Let_def split: pyval.splits option.splits prod.splits)
  from outputs_append_Inr [OF a] o show ?thesis
    by (auto simp: update_conv')
qed

lemma slots_append_Inl: "slots_append oi conn slots = (Inl e, slots') \<Longrightarrow> \<exists>b. e = Builtin b"
  by (auto simp: slots_append_def Let_def split: pyval.splits option.splits)

lemma outputs_append_Inl:
  "outputs_append ot oi conn outs = (Inl e, outs') \<Longrightarrow> \<exists>b. e = Builtin b"
  by (auto simp: outputs_append_def Let_def split: pyval.splits option.splits prod.splits
           dest: slots_append_Inl)

lemma connections_append_Inl:
  "connections_append src ot oi conn conns = (Inl e, conns') \<Longrightarrow> \<exists>b. e = Builtin b"
  by (auto simp: connections_append_def Let_def split: pyval.splits option.splits prod.splits
           dest: outputs_append_Inl)

lemma connections_append_dict:
  "\<exists>c'. snd (connections_append src ot oi conn (PDict c0)) = PDict c'
        \<and> (\<forall>x. x \<noteq> src \<longrightarrow> map_of c' x = map_of c0 x)
        \<and> (map_of c0 src \<noteq> None \<longrightarrow> map_of c' src \<noteq> None)"
  by (auto simp: connections_append_def Let_def update_conv' split: option.splits prod.splits)

lemma connections_append_not_dict:
  "\<not> is_dict conns \<Longrightarrow>
   connections_append src ot oi conn conns = (Inl (Builtin TypeError), conns)"
  by (cases conns) (simp_all add: connections_append_def)

lemma slots_append_fresh: "0 \<le> oi \<Longrightarrow> fst (slots_append oi conn (PList [])) = Inr ()"
  by (simp add: slots_append_def grow_eq py_index_def Let_def)

lemma connections_append_fresh:
  assumes "map_of c0 src = None" and "0 \<le> oi"
  shows "fst (connections_append src ot oi conn (PDict c0)) = Inr ()"
  using assms slots_append_fresh [of oi conn]
  by (auto simp: connections_append_def outputs_append_def Let_def update_conv'
           split: prod.splits)

lemma seed_target_dict:
  "\<exists>c'. seed_target t (PDict c) = PDict c' \<and> map_of c' t \<noteq> None
        \<and> (\<forall>x. x \<noteq> t \<longrightarrow> map_of c' x = map_of c x)
        \<and> (map_of c t = None \<longrightarrow> map_of c' t = Some (PDict [(''main'', PList [PList []])]))
        \<and> (map_of c t \<noteq> None \<longrightarrow> c' = c)"
  by (auto simp: seed_target_def update_conv')

lemma connect_present:
  assumes "n_id a \<in> n_id ` set (nodes self)" and "n_id b \<in> n_id ` set (nodes self)"
  shows "fst (connect now a b ot it oi ii self) =
           fst (connections_append (n_name a) ot oi
                  (PDict [(''node'', PStr (n_name b)), (''type'', PStr it), (''index'', PInt ii)])
                  (connections self))"
    and "connections (fst (snd (connect now a b ot it oi ii self))) =
           (case connections_append (n_name a) ot oi
                  (PDict [(''node'', PStr (n_name b)), (''type'', PStr it), (''index'', PInt ii)])
                  (connections self) of
              (Inl e, conns) \<Rightarrow> conns
            | (Inr u, conns) \<Rightarrow> seed_target (n_name b) conns)"
  using assms
  by (auto simp: connect_def list_ex_node_eq Let_def split: prod.splits sum.splits)

lemma connect_absent:
  assumes "\<not> (n_id a \<in> n_id ` set (nodes self) \<and> n_id b \<in> n_id ` set (nodes self))"
  shows "fst (snd (connect now a b ot it oi ii self)) = self"
    and "fst (connect now a b ot it oi ii self) \<noteq> Inr ()"
  using assms by (auto simp: connect_def list_ex_node_eq Let_def)

lemma connect_keeps_entries:
  assumes "has_entry self x"
  shows "has_entry (fst (snd (connect now a b ot it oi ii self))) x"
proof (cases "n_id a \<in> n_id ` set (nodes self) \<and> n_id b \<in> n_id ` set (nodes self)")
  case False
  with assms show ?thesis by (simp add: connect_absent)
next
  case True
  from assms obtain c0 where c0: "connections self = PDict c0" "map_of c0 x \<noteq> None"
    by (auto simp: has_entry_def split: pyval.splits)
  let ?conn = "PDict [(''node'', PStr (n_name b)), (''type'', PStr it), (''index'', PInt ii)]"
  obtain r conns where ca: "connections_append (n_name a) ot oi ?conn (PDict c0) = (r, conns)"
    by (cases "connections_append (n_name a) ot oi ?conn (PDict c0)")
  from connections_append_dict [of "n_name a" ot oi ?conn c0] ca c0
  obtain c' where c': "conns = PDict c'" "map_of c' x \<noteq> None"
    by (cases "x = n_name a") auto
  from seed_target_dict [of "n_name b" c'] c'
  obtain c'' where "seed_target (n_name b) conns = PDict c''" "map_of c'' x \<noteq> None"
    by (cases "x = n_name b") auto
  with True c0 ca c' show ?thesis
    by (cases r) (simp_all add: connect_present has_entry_def)
qed

lemma connect_target_entry:
  assumes "fst (connect now a b ot it oi ii self) = Inr ()"
  shows "has_entry (fst (snd (connect now a b ot it oi ii self))) (n_name b)"
proof -
  from assms have p: "n_id a \<in> n_id ` set (nodes self)" "n_id b \<in> n_id ` set (nodes self)"
    using connect_absent(2) [of a self b now ot it oi ii] by blast+
  let ?conn = "PDict [(''node'', PStr (n_name b)), (''type'', PStr it), (''index'', PInt ii)]"
  from assms p obtain conns where
    ca: "connections_append (n_name a) ot oi ?conn (connections self) = (Inr (), conns)"
    by (cases "connections_append (n_name a) ot oi ?conn (connections self)")
       (simp add: connect_present)
  from connections_append_Inr [OF ca] obtain c where c: "conns = PDict c" by blast
  from seed_target_dict [of "n_name b" c] c p ca show ?thesis
    by (auto simp: connect_present has_entry_def)
qed

lemma run_keeps_entries: "has_entry self x \<Longrightarrow> has_entry (snd (run cs self)) x"
proof (induction cs arbitrary: self)
  case Nil
  then show ?case by simp
next
  case (Cons c cs)
  have "has_entry (snd (perform c self)) x"
  proof (cases c)
    case (AddNode now node)
    with Cons.prems show ?thesis
      by (simp add: add_node_def has_entry_def Let_def)
  next
    case (Connect now a b ot it oi ii)
    with connect_keeps_entries [OF Cons.prems, of now a b ot it oi ii] show ?thesis
      by simp
  qed
  from Cons.IH [OF this] show ?case
    by simp
qed

lemma run_target_entry:
  assumes "i < length cs" and "cs ! i = Connect now a b ot it oi ii"
    and "fst (run cs self) ! i = Inr ()"
  shows "has_entry (snd (run cs self)) (n_name b)"
  using assms
proof (induction cs arbitrary: self i)
  case Nil
  then show ?case by simp
next
  case (Cons c cs)
  show ?case
  proof (cases i)
    case 0
    with Cons.prems have c: "c = Connect now a b ot it oi ii"
      and r: "fst (connect now a b ot it oi ii self) = Inr ()"
      by auto
    from connect_target_entry [OF r]
    have "has_entry (snd (perform c self)) (n_name b)"
      by (simp add: c)
    from run_keeps_entries [OF this, of cs] show ?thesis
      by simp
  next
    case (Suc k)
    with Cons.prems have "k < length cs" "cs ! k = Connect now a b ot it oi ii"
      "fst (run cs (snd (perform c self))) ! k = Inr ()"
      by auto
    from Cons.IH [OF this] show ?thesis
      by simp
  qed
qed

lemma start_to_fetch_ok:
  "fst (connect now start_node fetch_node ''main'' ''main'' 0 0 pipeline) = Inr ()"
  by (simp add: connect_present(1) connections_append_fresh
      pipeline_def empty_workflow_def start_node_def fetch_node_def)

subsection \<open>Output slots are filled up to the one connected\<close>

text \<open>
  C4. In a workflow that contains the nodes \<open>A\<close> and \<open>B\<close> and whose \<^verbatim>\<open>connections\<close>
  has no entry for the name of \<open>A\<close>, \<^verbatim>\<open>connect(A, B, output_type, input_type, 2,
  input_index)\<close> returns normally, and afterwards \<^verbatim>\<open>connections[A.name][output_type]\<close> is a
  list of three slots: two empty lists, then the list that holds exactly the record
  \<^verbatim>\<open>{"node": B.name, "type": input_type, "index": input_index}\<close>.
\<close>

theorem connect_output_slot_two:
  assumes "A \<in> set (nodes self)" and "B \<in> set (nodes self)"
    and "connections self = PDict c" and "map_of c (n_name A) = None"
  shows "\<exists>self' ev c' d.
           connect now A B output_type input_type 2 input_index self = (Inr (), self', ev)
         \<and> connections self' = PDict c'
         \<and> map_of c' (n_name A) = Some (PDict d)
         \<and> map_of d output_type =
             Some (PList [PList [], PList [],
                          PList [PDict [(''node'', PStr (n_name B)), (''type'', PStr input_type),
                                        (''index'', PInt input_index)]]])"
proof -
  have g: "grow [] 2 = [PList [], PList [], PList []]"
    by (simp add: grow_eq numeral_3_eq_3)
  have i: "py_index [PList [], PList [], PList []] 2 = Some 2"
    by (simp add: py_index_def)
  from assms(1,2) have p: "list_ex (node_eq A) (nodes self)" "list_ex (node_eq B) (nodes self)"
    by (auto simp: list_ex_node_eq)
  show ?thesis
    using assms(3,4) p
    by (simp add: connect_def connections_append_def outputs_append_def slots_append_def
                  seed_target_def Let_def update_conv' g i)
qed

theorem connect_output_slot_two_witness:
  "start_node \<in> set (nodes pipeline) \<and> fetch_node \<in> set (nodes pipeline)
   \<and> connections pipeline = PDict [] \<and> map_of [] (n_name start_node) = None
   \<and> (\<exists>self' ev c' d.
         connect ''2024-05-01T10:00:03'' start_node fetch_node ''main'' ''main'' 2 0 pipeline
           = (Inr (), self', ev)
       \<and> connections self' = PDict c'
       \<and> map_of c' (n_name start_node) = Some (PDict d)
       \<and> map_of d ''main'' =
           Some (PList [PList [], PList [],
                        PList [PDict [(''node'', PStr (n_name fetch_node)), (''type'', PStr ''main''),
                                      (''index'', PInt 0)]]]))"
proof -
  have a: "start_node \<in> set (nodes pipeline)" and b: "fetch_node \<in> set (nodes pipeline)"
    and c: "connections pipeline = PDict []"
    by (simp_all add: pipeline_def empty_workflow_def)
  have n: "map_of [] (n_name start_node) = None"
    by simp
  from a b c n connect_output_slot_two [OF a b c n] show ?thesis
    by blast
qed

subsection \<open>Every connection target has an entry\<close>

text \<open>
  C5, as the code has it. In any session of calls started on any workflow, the target of
  every \<^verbatim>\<open>connect\<close> call that returned normally has an entry in \<^verbatim>\<open>connections\<close> at the end
  of the session. And when a \<^verbatim>\<open>connect\<close> call returns normally, the name of the target had
  no entry before the call and differs from the name of the source, then the entry of the
  target after the call is \<^verbatim>\<open>{"main": [[]]}\<close>.
\<close>

theorem connect_targets_have_entries:
  "(\<forall>i now a b ot it oi ii.
      i < length calls \<and> calls ! i = Connect now a b ot it oi ii
        \<and> fst (run calls self) ! i = Inr ()
      \<longrightarrow> has_entry (snd (run calls self)) (n_name b))
   \<and> (fst (connect now from_node to_node output_type input_type output_index input_index self)
         = Inr ()
       \<and> \<not> has_entry self (n_name to_node) \<and> n_name to_node \<noteq> n_name from_node
      \<longrightarrow> (\<exists>c. connections (fst (snd (connect now from_node to_node output_type input_type
                                          output_index input_index self))) = PDict c
               \<and> map_of c (n_name to_node) = Some (PDict [(''main'', PList [PList []])])))"
proof (intro conjI allI impI)
  fix i now a b ot it oi ii
  assume "i < length calls \<and> calls ! i = Connect now a b ot it oi ii
            \<and> fst (run calls self) ! i = Inr ()"
  then show "has_entry (snd (run calls self)) (n_name b)"
    using run_target_entry by blast
next
  let ?r = "connect now from_node to_node output_type input_type output_index input_index self"
  let ?conn = "PDict [(''node'', PStr (n_name to_node)), (''type'', PStr input_type),
                      (''index'', PInt input_index)]"
  assume h: "fst ?r = Inr () \<and> \<not> has_entry self (n_name to_node)
               \<and> n_name to_node \<noteq> n_name from_node"
  then have p: "n_id from_node \<in> n_id ` set (nodes self)"
    "n_id to_node \<in> n_id ` set (nodes self)"
    using connect_absent(2) [of from_node self to_node now output_type input_type output_index
            input_index] by blast+
  from h p obtain conns where
    ca: "connections_append (n_name from_node) output_type output_index ?conn (connections self)
           = (Inr (), conns)"
    by (cases "connections_append (n_name from_node) output_type output_index ?conn
                 (connections self)") (simp add: connect_present)
  then have "is_dict (connections self)"
    using connections_append_not_dict by fastforce
  then obtain c0 where c0: "connections self = PDict c0"
    by (cases "connections self") simp_all
  with h have none: "map_of c0 (n_name to_node) = None"
    by (simp add: has_entry_def)
  from connections_append_dict [of "n_name from_node" output_type output_index ?conn c0]
    ca c0 h none
  obtain c' where c': "conns = PDict c'" "map_of c' (n_name to_node) = None"
    by auto
  from seed_target_dict [of "n_name to_node" c'] c' p ca
  show "\<exists>c. connections (fst (snd ?r)) = PDict c
             \<and> map_of c (n_name to_node) = Some (PDict [(''main'', PList [PList []])])"
    by (auto simp: connect_present)
qed

theorem connect_targets_have_entries_witness:
  "fst (run [Connect ''2024-05-01T10:00:03'' start_node fetch_node ''main'' ''main'' 0 0]
          pipeline) ! 0 = Inr ()
   \<and> has_entry (snd (run [Connect ''2024-05-01T10:00:03'' start_node fetch_node ''main''
                            ''main'' 0 0] pipeline)) (n_name fetch_node)
   \<and> fst (connect ''2024-05-01T10:00:03'' start_node fetch_node ''main'' ''main'' 0 0 pipeline)
       = Inr ()
   \<and> \<not> has_entry pipeline (n_name fetch_node)
   \<and> n_name fetch_node \<noteq> n_name start_node
   \<and> (\<exists>c. connections (fst (snd (connect ''2024-05-01T10:00:03'' start_node fetch_node
                                     ''main'' ''main'' 0 0 pipeline))) = PDict c
          \<and> map_of c (n_name fetch_node) = Some (PDict [(''main'', PList [PList []])]))"
proof -
  let ?calls = "[Connect ''2024-05-01T10:00:03'' start_node fetch_node ''main'' ''main'' 0 0]"
  have ok: "fst (connect ''2024-05-01T10:00:03'' start_node fetch_node ''main'' ''main'' 0 0
                   pipeline) = Inr ()"
    by (rule start_to_fetch_ok)
  then have r: "(0::nat) < length ?calls
      \<and> ?calls ! 0 = Connect ''2024-05-01T10:00:03'' start_node fetch_node ''main'' ''main'' 0 0
      \<and> fst (run ?calls pipeline) ! 0 = Inr ()"
    by simp
  have e: "\<not> has_entry pipeline (n_name fetch_node)"
    and d: "n_name fetch_node \<noteq> n_name start_node"
    by (simp_all add: has_entry_def pipeline_def empty_workflow_def start_node_def fetch_node_def)
  from ok r e d
    connect_targets_have_entries [of ?calls pipeline "''2024-05-01T10:00:03''" start_node
      fetch_node "''main''" "''main''" 0 0]
  show ?thesis
    by blast
qed

text \<open>
  The claim as the specification words it fails where the target bears the name of the
  source. Connecting a node to itself in a workflow without connections returns normally,
  the name had no entry before the call, and the entry it has afterwards is the one made
  for the source, holding the new record.
\<close>

theorem connect_to_itself_counterexample:
  "fst (connect ''2024-05-01T10:00:03'' start_node start_node ''main'' ''main'' 0 0 pipeline)
     = Inr ()
   \<and> \<not> has_entry pipeline (n_name start_node)
   \<and> connections (fst (snd (connect ''2024-05-01T10:00:03'' start_node start_node ''main''
                               ''main'' 0 0 pipeline)))
       = PDict [(''Start'',
                 PDict [(''main'',
                         PList [PList [PDict [(''node'', PStr ''Start''), (''type'', PStr ''main''),
                                              (''index'', PInt 0)]]])])]"
proof -
  have g: "grow [] 0 = [PList []]"
    by (simp add: grow_eq)
  show ?thesis
    by (simp add: connect_def connections_append_def outputs_append_def slots_append_def
                  seed_target_def has_entry_def py_index_def node_eq_def Let_def g
                      pipeline_def empty_workflow_def start_node_def fetch_node_def)
qed

subsection \<open>Membership is decided by the id\<close>

text \<open>
  C10. Let the workflow contain nodes \<open>N\<close> and \<open>M\<close>, and let \<open>a\<close> and \<open>b\<close> be any nodes
  with the ids of \<open>N\<close> and \<open>M\<close> (other objects, never added, with other names). Then
  \<^verbatim>\<open>connect(a, b)\<close> is not refused: it raises none of the SDK's errors. Whenever it returns
  normally, the record it appended is filed under the name of \<open>a\<close> and names \<open>b\<close>: slot
  \<open>oi\<close> of \<^verbatim>\<open>connections[a.name][ot]\<close> ends with \<^verbatim>\<open>{"node": b.name, "type": it, "index":
  ii}\<close>. And it does return normally when \<^verbatim>\<open>connections\<close> has no entry for the name of
  \<open>a\<close> and the output index is not negative.
\<close>

theorem connect_membership_by_id:
  assumes "N \<in> set (nodes self)" and "n_id a = n_id N"
    and "M \<in> set (nodes self)" and "n_id b = n_id M"
  shows "(\<forall>cls msg code. fst (connect now a b ot it oi ii self) \<noteq> Inl (SDKError cls msg code))
     \<and> (fst (connect now a b ot it oi ii self) = Inr () \<longrightarrow>
          (\<exists>c d l j slot.
              connections (fst (snd (connect now a b ot it oi ii self))) = PDict c
            \<and> map_of c (n_name a) = Some (PDict d)
            \<and> map_of d ot = Some (PList l)
            \<and> py_index l oi = Some j
            \<and> l ! j = PList (slot @ [PDict [(''node'', PStr (n_name b)), (''type'', PStr it),
                                            (''index'', PInt ii)]])))
     \<and> ((\<exists>c0. connections self = PDict c0 \<and> map_of c0 (n_name a) = None) \<and> 0 \<le> oi \<longrightarrow>
          fst (connect now a b ot it oi ii self) = Inr ())"
proof -
  let ?conn = "PDict [(''node'', PStr (n_name b)), (''type'', PStr it), (''index'', PInt ii)]"
  let ?ca = "connections_append (n_name a) ot oi ?conn (connections self)"
  from assms have p: "n_id a \<in> n_id ` set (nodes self)" "n_id b \<in> n_id ` set (nodes self)"
    by auto
  have 1: "fst (connect now a b ot it oi ii self) \<noteq> Inl (SDKError cls msg code)"
    for cls msg code
    using connections_append_Inl [of "n_name a" ot oi ?conn "connections self"]
    by (cases ?ca) (auto simp: connect_present(1) [OF p])
  have 2: "\<exists>c d l j slot.
              connections (fst (snd (connect now a b ot it oi ii self))) = PDict c
            \<and> map_of c (n_name a) = Some (PDict d)
            \<and> map_of d ot = Some (PList l)
            \<and> py_index l oi = Some j
            \<and> l ! j = PList (slot @ [?conn])"
    if ok: "fst (connect now a b ot it oi ii self) = Inr ()"
  proof -
    from ok p obtain conns where ca: "?ca = (Inr (), conns)"
      by (cases ?ca) (simp add: connect_present)
    from connections_append_Inr [OF ca] obtain c d l j slot where
      c: "conns = PDict c" "map_of c (n_name a) = Some (PDict d)" "map_of d ot = Some (PList l)"
         "py_index l oi = Some j" "l ! j = PList (slot @ [?conn])"
      by blast
    from seed_target_dict [of "n_name b" c] obtain c' where
      c': "seed_target (n_name b) (PDict c) = PDict c'"
          "map_of c' (n_name a) = map_of c (n_name a)"
      using c(2) by (cases "n_name a = n_name b") (auto simp: c(1))
    from c c' ca p show ?thesis
      by (simp add: connect_present)
  qed
  have 3: "fst (connect now a b ot it oi ii self) = Inr ()"
    if "(\<exists>c0. connections self = PDict c0 \<and> map_of c0 (n_name a) = None) \<and> 0 \<le> oi"
    using that connections_append_fresh [of _ "n_name a" oi ot ?conn]
    by (auto simp: connect_present(1) [OF p])
  from 1 2 3 show ?thesis by blast
qed

theorem connect_membership_by_id_witness:
  "start_node \<in> set (nodes pipeline) \<and> fetch_node \<in> set (nodes pipeline)
   \<and> lookalike_node \<notin> set (nodes pipeline)
   \<and> n_id lookalike_node = n_id fetch_node
   \<and> n_name lookalike_node = ''Other'' \<and> n_name fetch_node = ''Fetch''
   \<and> fst (connect ''2024-05-01T10:00:03'' start_node lookalike_node ''main'' ''main'' 0 0
            pipeline) = Inr ()
   \<and> (\<exists>c d l j slot.
         connections (fst (snd (connect ''2024-05-01T10:00:03'' start_node lookalike_node
                                  ''main'' ''main'' 0 0 pipeline))) = PDict c
       \<and> map_of c (n_name start_node) = Some (PDict d)
       \<and> map_of d ''main'' = Some (PList l)
       \<and> py_index l 0 = Some j
       \<and> l ! j = PList (slot @ [PDict [(''node'', PStr (n_name lookalike_node)),
                                       (''type'', PStr ''main''), (''index'', PInt 0)]]))"
proof -
  have s: "start_node \<in> set (nodes pipeline)" and f: "fetch_node \<in> set (nodes pipeline)"
    and c: "connections pipeline = PDict []"
    by (simp_all add: pipeline_def empty_workflow_def)
  have l: "lookalike_node \<notin> set (nodes pipeline)"
    and i: "n_id lookalike_node = n_id fetch_node"
    and n: "n_name lookalike_node = ''Other''" "n_name fetch_node = ''Fetch''"
    by (simp_all add:
        pipeline_def empty_workflow_def start_node_def fetch_node_def lookalike_node_def)
  have fresh: "(\<exists>c0. connections pipeline = PDict c0 \<and> map_of c0 (n_name start_node) = None)
                 \<and> (0::int) \<le> 0"
    using c by simp
  from s f l i n fresh
    connect_membership_by_id [OF s refl f i, of "''2024-05-01T10:00:03''" "''main''"
      "''main''" 0 0]
  show ?thesis
    by blast
qed

subsection \<open>Reading a node from a fragment\<close>

lemma is_blank_PStr: "is_blank (PStr s) = Inr (strip s = [])"
  by (cases "s = []") (simp_all add: is_blank_def)

text \<open>
  C2, as the code has it. \<^verbatim>\<open>Node.from_dict\<close> calls the constructor, so the required-field
  checks run again. A fragment whose type is absent, empty or blank raises \<^verbatim>\<open>NodeError\<close>
  with \<^verbatim>\<open>NODE_INVALID_TYPE\<close>; one whose type is a non-blank string and whose name is absent,
  empty or blank raises \<^verbatim>\<open>NodeError\<close> with \<^verbatim>\<open>NODE_MISSING_REQUIRED_FIELD\<close>; one whose type
  and name are non-blank strings and whose id is absent, null or a string yields a node
  with the stripped type and name.
\<close>

theorem Node_from_dict_runs_checks:
  "(dict_get kvs ''type'' (PStr []) = PStr t \<and> strip t = [] \<longrightarrow>
      Node_from_dict uuid (PDict kvs) =
        (Inl (SDKError NodeError ''Node type cannot be empty'' (Some NODE_INVALID_TYPE)), []))
   \<and> (dict_get kvs ''type'' (PStr []) = PStr t \<and> strip t \<noteq> []
        \<and> dict_get kvs ''name'' (PStr []) = PStr n \<and> strip n = [] \<longrightarrow>
      Node_from_dict uuid (PDict kvs) =
        (Inl (SDKError NodeError ''Node name cannot be empty''
                (Some NODE_MISSING_REQUIRED_FIELD)), []))
   \<and> (dict_get kvs ''type'' (PStr []) = PStr t \<and> strip t \<noteq> []
        \<and> dict_get kvs ''name'' (PStr []) = PStr n \<and> strip n \<noteq> []
        \<and> (dict_get kvs ''id'' PNone = PNone \<or> is_str (dict_get kvs ''id'' PNone)) \<longrightarrow>
      (\<exists>self. fst (Node_from_dict uuid (PDict kvs)) = Inr self
              \<and> n_type self = strip t \<and> n_name self = strip n))"
proof -
  have ident: "\<exists>i. id_or_fresh v uuid = Inr i" if "v = PNone \<or> is_str v" for v
    using that by (cases v) (auto simp: id_or_fresh_def)
  show ?thesis
    using ident [of "dict_get kvs ''id'' PNone"]
    by (auto simp: Node_from_dict_def Node_init_def is_blank_PStr py_strip_def Let_def)
qed

theorem Node_from_dict_runs_checks_witness:
  "dict_get no_type_items ''type'' (PStr []) = PStr [] \<and> strip [] = []
   \<and> fst (Node_from_dict example_uuid (PDict no_type_items))
       = Inl (SDKError NodeError ''Node type cannot be empty'' (Some ''ND001''))
   \<and> dict_get blank_name_items ''type'' (PStr []) = PStr ''n8n-nodes-base.set''
   \<and> strip ''n8n-nodes-base.set'' \<noteq> []
   \<and> dict_get blank_name_items ''name'' (PStr []) = PStr ''   '' \<and> strip ''   '' = []
   \<and> fst (Node_from_dict example_uuid (PDict blank_name_items))
       = Inl (SDKError NodeError ''Node name cannot be empty'' (Some ''ND003''))
   \<and> dict_get start_items ''type'' (PStr []) = PStr ''n8n-nodes-base.manualTrigger''
   \<and> strip ''n8n-nodes-base.manualTrigger'' \<noteq> []
   \<and> dict_get start_items ''name'' (PStr []) = PStr '' Start '' \<and> strip '' Start '' \<noteq> []
   \<and> is_str (dict_get start_items ''id'' PNone)
   \<and> (\<exists>self. fst (Node_from_dict example_uuid (PDict start_items)) = Inr self
              \<and> n_type self = strip ''n8n-nodes-base.manualTrigger''
              \<and> n_name self = strip '' Start '')"
proof -
  have a: "dict_get no_type_items ''type'' (PStr []) = PStr [] \<and> strip [] = []"
    by (simp add: dict_get_def no_type_items_def)
  have b: "dict_get blank_name_items ''type'' (PStr []) = PStr ''n8n-nodes-base.set''
           \<and> strip ''n8n-nodes-base.set'' \<noteq> []
           \<and> dict_get blank_name_items ''name'' (PStr []) = PStr ''   '' \<and> strip ''   '' = []"
    by (simp add: dict_get_def blank_name_items_def strip_def py_isspace_def)
  have c: "dict_get start_items ''type'' (PStr []) = PStr ''n8n-nodes-base.manualTrigger''
           \<and> strip ''n8n-nodes-base.manualTrigger'' \<noteq> []
           \<and> dict_get start_items ''name'' (PStr []) = PStr '' Start ''
           \<and> strip '' Start '' \<noteq> []
           \<and> is_str (dict_get start_items ''id'' PNone)"
    by (simp add: dict_get_def start_items_def strip_def py_isspace_def)
  from a b c
    Node_from_dict_runs_checks [of no_type_items "[]" example_uuid]
    Node_from_dict_runs_checks [of blank_name_items "''n8n-nodes-base.set''" example_uuid
      "''   ''"]
    Node_from_dict_runs_checks [of start_items "''n8n-nodes-base.manualTrigger''" example_uuid
      "'' Start ''"]
  show ?thesis
    by (simp add: NODE_INVALID_TYPE_def NODE_MISSING_REQUIRED_FIELD_def)
qed

text \<open>
  The claim as the specification words it fails: a fragment with an empty name, and one
  with no type, raise instead of yielding a node.
\<close>

theorem Node_from_dict_counterexample:
  "fst (Node_from_dict example_uuid
          (PDict [(''id'', PStr ''n1''), (''name'', PStr []),
                  (''type'', PStr ''n8n-nodes-base.set'')]))
     = Inl (SDKError NodeError ''Node name cannot be empty'' (Some ''ND003''))
   \<and> fst (Node_from_dict example_uuid (PDict [(''id'', PStr ''n1''), (''name'', PStr ''Start'')]))
     = Inl (SDKError NodeError ''Node type cannot be empty'' (Some ''ND001''))"
  by (simp add: Node_from_dict_def Node_init_def dict_get_def is_blank_def strip_def
                py_isspace_def NODE_INVALID_TYPE_def NODE_MISSING_REQUIRED_FIELD_def)

subsection \<open>Export of a workflow that does not validate\<close>

text \<open>
  C1, as the code has it. When \<^verbatim>\<open>validate()\<close> returns a non-empty list, \<^verbatim>\<open>export\<close> with the
  validate flag set raises; the workflow is as before; the file is neither opened nor
  written. \<^verbatim>\<open>os.makedirs\<close> runs before the validation, so the one effect on the file
  system is the directory of the destination, made when it is asked for and the
  operating system does not refuse.
\<close>

theorem export_validation_failure:
  assumes "Workflow_validate self = Inr problems" and "problems \<noteq> []"
  shows "\<exists>e ev. export env now file_path pretty True self =
           (Inl e, self, ev,
            if abs_dirname env file_path \<noteq> []
               \<and> makedirs_error env (abs_dirname env file_path) = None
            then [MakeDirs (abs_dirname env file_path)] else [])"
  using assms
  by (auto simp: export_def export_try_def Let_def split: option.splits)

lemma validate_empty_workflow:
  "Workflow_validate empty_workflow = Inr [''Workflow must contain at least one node'']"
  by (simp add: Workflow_validate_def empty_workflow_def collect_def enumerate_eq_zip)

theorem export_validation_failure_witness:
  "Workflow_validate empty_workflow = Inr [''Workflow must contain at least one node'']
   \<and> [''Workflow must contain at least one node''] \<noteq> []
   \<and> (\<exists>e ev. export quiet_env ''2024-05-01T10:00:05'' ''/tmp/out/test_workflow.json'' True True
                 empty_workflow
               = (Inl e, empty_workflow, ev, [MakeDirs ''/tmp/out'']))"
proof -
  have p: "[''Workflow must contain at least one node''] \<noteq> []"
    by simp
  from validate_empty_workflow p
    export_validation_failure [OF validate_empty_workflow p, of quiet_env
      "''2024-05-01T10:00:05''" "''/tmp/out/test_workflow.json''" True]
  show ?thesis
    by (simp add: quiet_env_def)
qed

text \<open>
  The claim as the specification words it fails on the empty workflow of the
  repository's own test: the exception that leaves \<^verbatim>\<open>export\<close> is an \<^verbatim>\<open>ExportError\<close> without
  a code, which wraps the text of the \<^verbatim>\<open>ValidationError\<close>, and the directory has been made
  by then.
\<close>

theorem export_counterexample:
  "Workflow_validate empty_workflow = Inr [''Workflow must contain at least one node'']
   \<and> fst (export quiet_env ''2024-05-01T10:00:05'' ''/tmp/out/test_workflow.json'' True True
            empty_workflow)
       = Inl (SDKError ExportError
               ''Export failed: [EX003] Workflow validation failed: Workflow must contain at least one node''
               None)
   \<and> snd (snd (snd (export quiet_env ''2024-05-01T10:00:05'' ''/tmp/out/test_workflow.json''
                       True True empty_workflow)))
       = [MakeDirs ''/tmp/out'']"
  by (simp add: validate_empty_workflow export_def export_try_def quiet_env_def error_str_def
                EXPORT_VALIDATION_ERROR_def Let_def)

subsection \<open>The structure checker and connection targets\<close>

lemma map_result_Inl: "x \<in> set xs \<Longrightarrow> f x = Inl e \<Longrightarrow> \<exists>e'. map_result f xs = Inl e'"
  by (induction xs) (auto split: sum.splits)

text \<open>
  C8, as the code has it. \<^verbatim>\<open>validate_workflow_structure\<close> raises \<^verbatim>\<open>ValueError\<close> on a value
  that lacks the \<^verbatim>\<open>connections\<close> key. It raises on a document in which a record of a slot
  list under the \<^verbatim>\<open>main\<close> port of some source has a \<^verbatim>\<open>node\<close> field naming a string that
  is the name of no node of the \<^verbatim>\<open>nodes\<close> list.
\<close>

theorem structure_check_rejects:
  "((\<forall>kvs. data = PDict kvs \<longrightarrow> map_of kvs ''connections'' = None) \<longrightarrow>
       (\<exists>msg. validate_workflow_structure data = Inl (ValueError msg)))
   \<and> (data = PDict kvs \<and> map_of kvs ''nodes'' = Some (PList ns)
        \<and> map_of kvs ''connections'' = Some (PDict cs)
        \<and> (src, PDict cd) \<in> set cs \<and> map_of cd ''main'' = Some (PList groups)
        \<and> PList conns \<in> set groups \<and> PDict r \<in> set conns
        \<and> map_of r ''node'' = Some (PStr t) \<and> PStr t \<notin> node_name_of ` set ns \<longrightarrow>
       (\<exists>e. validate_workflow_structure data = Inl e))"
proof (intro conjI impI)
  assume a: "\<forall>kvs. data = PDict kvs \<longrightarrow> map_of kvs ''connections'' = None"
  show "\<exists>msg. validate_workflow_structure data = Inl (ValueError msg)"
  proof (cases data)
    case (PDict kvs)
    with a have "map_of kvs ''connections'' = None" by simp
    with PDict show ?thesis
      by (simp add: validate_workflow_structure_def Let_def)
  qed (simp_all add: validate_workflow_structure_def)
next
  assume h: "data = PDict kvs \<and> map_of kvs ''nodes'' = Some (PList ns)
        \<and> map_of kvs ''connections'' = Some (PDict cs)
        \<and> (src, PDict cd) \<in> set cs \<and> map_of cd ''main'' = Some (PList groups)
        \<and> PList conns \<in> set groups \<and> PDict r \<in> set conns
        \<and> map_of r ''node'' = Some (PStr t) \<and> PStr t \<notin> node_name_of ` set ns"
  let ?names = "map node_name_of ns"
  from h have r: "PDict r \<in> set conns" and g: "PList conns \<in> set groups"
    and s: "(src, PDict cd) \<in> set cs" and m: "map_of cd ''main'' = Some (PList groups)"
    and d: "data = PDict kvs" and n: "map_of kvs ''nodes'' = Some (PList ns)"
    and c: "map_of kvs ''connections'' = Some (PDict cs)"
    and t: "map_of r ''node'' = Some (PStr t)" "PStr t \<notin> node_name_of ` set ns"
    by simp_all
  from t obtain e1 where "check_conn ?names (PDict r) = Inl e1"
    by (simp add: check_conn_def)
  from map_result_Inl [where f = "check_conn ?names", OF r this] obtain e2 where
    "map_result (check_conn ?names) conns = Inl e2" ..
  then have "check_group ?names (PList conns) = Inl e2"
    by (simp add: check_group_def)
  from map_result_Inl [where f = "check_group ?names", OF g this] obtain e3 where
    e3: "map_result (check_group ?names) groups = Inl e3" ..
  have "\<exists>e4. check_source ?names (src, PDict cd) = Inl e4"
    by (simp add: check_source_def Let_def m e3)
  then obtain e4 where "check_source ?names (src, PDict cd) = Inl e4" ..
  from map_result_Inl [where f = "check_source ?names", OF s this] obtain e5 where
    e5: "map_result (check_source ?names) cs = Inl e5" ..
  show "\<exists>e. validate_workflow_structure data = Inl e"
    by (simp add: validate_workflow_structure_def dict_item_def Let_def d n c e5
             split: sum.splits)
qed

theorem structure_check_rejects_witness:
  "map_of no_connections_items ''connections'' = None
   \<and> (\<exists>msg. validate_workflow_structure (PDict no_connections_items) = Inl (ValueError msg))
   \<and> map_of dangling_main_items ''nodes'' = Some (PList agent_nodes)
   \<and> map_of calculator_record ''node'' = Some (PStr ''Calculator'')
   \<and> PStr ''Calculator'' \<notin> node_name_of ` set agent_nodes
   \<and> (\<exists>e. validate_workflow_structure (PDict dangling_main_items) = Inl e)"
proof -
  let ?cd = "[(''main'', PList [PList [PDict calculator_record]])]"
  have a: "\<forall>kvs. PDict no_connections_items = PDict kvs \<longrightarrow> map_of kvs ''connections'' = None"
    and a': "map_of no_connections_items ''connections'' = None"
    by (simp_all add: no_connections_items_def)
  have rec: "map_of calculator_record ''node'' = Some (PStr ''Calculator'')"
    and absent: "PStr ''Calculator'' \<notin> node_name_of ` set agent_nodes"
    by (simp_all add: calculator_record_def agent_nodes_def node_name_of_def dict_get_def)
  have ns: "map_of dangling_main_items ''nodes'' = Some (PList agent_nodes)"
    by (simp add: dangling_main_items_def)
  have b: "PDict dangling_main_items = PDict dangling_main_items
        \<and> map_of dangling_main_items ''nodes'' = Some (PList agent_nodes)
        \<and> map_of dangling_main_items ''connections'' = Some (PDict [(''Agent'', PDict ?cd)])
        \<and> (''Agent'', PDict ?cd) \<in> set [(''Agent'', PDict ?cd)]
        \<and> map_of ?cd ''main'' = Some (PList [PList [PDict calculator_record]])
        \<and> PList [PDict calculator_record] \<in> set [PList [PDict calculator_record]]
        \<and> PDict calculator_record \<in> set [PDict calculator_record]
        \<and> map_of calculator_record ''node'' = Some (PStr ''Calculator'')
        \<and> PStr ''Calculator'' \<notin> node_name_of ` set agent_nodes"
    using rec absent by (simp add: dangling_main_items_def)
  have c1: "\<exists>msg. validate_workflow_structure (PDict no_connections_items)
                    = Inl (ValueError msg)"
    by (rule mp [OF conjunct1 [OF structure_check_rejects] a])
  have c2: "\<exists>e. validate_workflow_structure (PDict dangling_main_items) = Inl e"
    by (rule mp [OF conjunct2 [OF structure_check_rejects] b])
  from a' c1 ns rec absent c2 show ?thesis
    by (intro conjI)
qed

text \<open>
  The claim as the specification words it fails for a record under another port: the
  checker looks at the \<^verbatim>\<open>main\<close> entry of a source only, and accepts this document, whose
  one record names a node that is not there.
\<close>

theorem structure_check_counterexample:
  "validate_workflow_structure dangling_tool_document = Inr True
   \<and> PStr ''Calculator'' \<notin> node_name_of ` set agent_nodes"
  by (simp add: validate_workflow_structure_def dangling_tool_document_def agent_nodes_def
                calculator_record_def dict_item_def check_node_def check_source_def
                node_name_of_def dict_get_def Let_def enumerate_eq_zip)

subsection \<open>From the workflow to the document and back\<close>

lemma dropWhile_self: "xs = [] \<or> \<not> P (hd xs) \<Longrightarrow> dropWhile P xs = xs"
  by (cases xs) auto

lemma strip_idem: "strip (strip s) = strip s"
proof -
  let ?P = "py_isspace"
  let ?a = "dropWhile ?P s"
  let ?b = "rev (dropWhile ?P (rev ?a))"
  have split: "?a = ?b @ rev (takeWhile ?P (rev ?a))"
    by (metis rev_append rev_rev_ident takeWhile_dropWhile_id)
  have "dropWhile ?P ?b = ?b"
  proof (rule dropWhile_self, cases "?b = []")
    case False
    then have "hd ?b = hd ?a"
      using split by (metis hd_append2)
    moreover from False have "?a \<noteq> []"
      by (cases "?a = []") simp_all
    ultimately show "?b = [] \<or> \<not> ?P (hd ?b)"
      using hd_dropWhile [of ?P s] by simp
  qed simp
  then show ?thesis
    by (simp add: strip_def)
qed

lemma id_or_fresh_nonempty:
  "length uuid = 36 \<Longrightarrow> id_or_fresh v uuid = Inr i \<Longrightarrow> i \<noteq> []"
  by (cases v) (auto simp: id_or_fresh_def split: if_splits)

lemma py_or_list: "v = PNone \<or> is_list v \<Longrightarrow>
  is_list (py_or v (PList [PInt 0, PInt 0])) \<and> truthy (py_or v (PList [PInt 0, PInt 0]))"
  by (cases v) (auto simp: py_or_def)

lemma py_or_dict: "truthy (py_or v (PDict [])) \<or> py_or v (PDict []) = PDict []"
  by (simp add: py_or_def)

lemma Node_init_Inr:
  assumes "Node_init uuid (PStr node_type) (PStr name) node_id tv ps pos cr = (Inr self, ev)"
  shows "\<exists>i. id_or_fresh node_id uuid = Inr i \<and> strip node_type \<noteq> [] \<and> strip name \<noteq> []
           \<and> self = \<lparr> n_id = i, n_type = strip node_type, n_name = strip name,
                       type_version = tv,
                       parameters = py_or ps (PDict []),
                       position = py_or pos (PList [PInt 0, PInt 0]),
                       credentials = py_or cr (PDict []) \<rparr>"
proof (cases "strip node_type = []")
  case True
  with assms show ?thesis by (simp add: Node_init_def is_blank_PStr)
next
  case t: False
  show ?thesis
  proof (cases "strip name = []")
    case True
    with assms t show ?thesis by (simp add: Node_init_def is_blank_PStr)
  next
    case n: False
    with assms t show ?thesis
      by (cases "id_or_fresh node_id uuid")
         (simp_all add: Node_init_def is_blank_PStr py_strip_def Let_def)
  qed
qed

lemma public_node_invariant: "public_node n \<Longrightarrow> node_invariant n"
proof (induction rule: public_node.induct)
  case (constructed uuid node_id parameters' position' credentials' node_type name
          type_version' self ev)
  from Node_init_Inr [OF constructed(6)] obtain i where
    i: "id_or_fresh node_id uuid = Inr i" and
    t: "strip node_type \<noteq> []" and n: "strip name \<noteq> []" and
    self: "self = \<lparr> n_id = i, n_type = strip node_type, n_name = strip name,
                    type_version = type_version',
                    parameters = py_or parameters' (PDict []),
                    position = py_or position' (PList [PInt 0, PInt 0]),
                    credentials = py_or credentials' (PDict []) \<rparr>"
    by blast
  from id_or_fresh_nonempty [OF constructed(1) i] t n py_or_list [OF constructed(4)]
    py_or_dict [of parameters'] py_or_dict [of credentials']
  show ?case
    by (simp add: node_invariant_def self strip_idem)
qed


lemma connect_frame:
  "nodes (fst (snd (connect now a b ot it oi ii self))) = nodes self"
  "w_id (fst (snd (connect now a b ot it oi ii self))) = w_id self"
  "w_name (fst (snd (connect now a b ot it oi ii self))) = w_name self"
  by (auto simp: connect_def Let_def split: prod.splits sum.splits)

lemma export_try_frame:
  "nodes (fst (snd (export_try env now p pr v self))) = nodes self"
  "w_id (fst (snd (export_try env now p pr v self))) = w_id self"
  "w_name (fst (snd (export_try env now p pr v self))) = w_name self"
  by (simp_all add: export_try_def Let_def split: option.splits sum.splits)

lemma export_workflow:
  "fst (snd (export env now p pr v self)) = fst (snd (export_try env now p pr v self))"
proof -
  obtain r w ev fx where t: "export_try env now p pr v self = (r, w, ev, fx)"
    by (cases "export_try env now p pr v self")
  show ?thesis
  proof (cases r)
    case (Inl e)
    with t show ?thesis
      by (cases e) (simp_all add: export_def Let_def)
  next
    case (Inr u)
    with t show ?thesis
      by (simp add: export_def)
  qed
qed

lemma built_invariant: "built w \<Longrightarrow> workflow_invariant w"
proof (induction rule: built.induct)
  case (created uuid workflow_id now name self ev)
  have "strip name \<noteq> []"
    using created(3) by (cases "strip name = []") (simp_all add: Workflow_init_def is_blank_PStr)
  with created(3) obtain i where
    i: "id_or_fresh workflow_id uuid = Inr i" and
    "w_id self = i" "w_name self = strip name" "nodes self = []"
    by (cases "id_or_fresh workflow_id uuid")
       (auto simp: Workflow_init_def is_blank_PStr py_strip_def Let_def)
  with id_or_fresh_nonempty [OF created(1) i] \<open>strip name \<noteq> []\<close> show ?case
    by (simp add: workflow_invariant_def strip_idem)
next
  case (added self node now)
  with public_node_invariant [of node] show ?case
    by (simp add: workflow_invariant_def add_node_def Let_def)
next
  case (connected self from_node to_node now output_type input_type output_index input_index)
  then show ?case
    by (simp add: workflow_invariant_def connect_frame)
next
  case (exported self env now file_path pretty validate)
  then show ?case
    by (simp add: workflow_invariant_def export_workflow export_try_frame)
next
  case (assigned self a s t)
  then show ?case
    by (simp add: workflow_invariant_def)
qed

lemma node_roundtrip:
  assumes "node_invariant n"
  shows "\<exists>d. Node_to_dict n = Inr d \<and> (\<forall>u. fst (Node_from_dict u d) = Inr n)"
proof -
  from assms obtain xs where xs: "position n = PList xs" "xs \<noteq> []"
    by (cases "position n") (auto simp: node_invariant_def)
  from assms have f:
    "n_id n \<noteq> []" "n_type n \<noteq> []" "strip (n_type n) = n_type n"
    "n_name n \<noteq> []" "strip (n_name n) = n_name n"
    "truthy (parameters n) \<or> parameters n = PDict []"
    "truthy (credentials n) \<or> credentials n = PDict []"
    by (simp_all add: node_invariant_def)
  have p: "py_or (parameters n) (PDict []) = parameters n"
    using f(6) by (auto simp: py_or_def)
  have c: "py_or (credentials n) (PDict []) = credentials n"
    using f(7) by (auto simp: py_or_def)
  have rec: "\<lparr> n_id = n_id n, n_type = n_type n, n_name = n_name n,
               type_version = type_version n, parameters = parameters n,
               position = PList xs, credentials = credentials n \<rparr> = n"
    using xs(1) by (cases n) simp
  show ?thesis
  proof (cases "truthy (credentials n)")
    case True
    with xs f p c rec show ?thesis
      by (simp add: Node_to_dict_def Node_from_dict_def Node_init_def dict_get_def
                    is_blank_PStr id_or_fresh_def py_strip_def py_or_def Let_def)
  next
    case False
    with f(7) have e: "credentials n = PDict []" by simp
    with xs f p rec False show ?thesis
      by (simp add: Node_to_dict_def Node_from_dict_def Node_init_def dict_get_def
                    is_blank_PStr id_or_fresh_def py_strip_def py_or_def Let_def)
  qed
qed

lemma nodes_roundtrip:
  assumes "list_all node_invariant ns"
  shows "\<exists>ds. map_result Node_to_dict ns = Inr ds
              \<and> (\<forall>us i. fst (import_nodes us i ds) = Inr ns)"
  using assms
proof (induction ns)
  case Nil
  then show ?case by simp
next
  case (Cons n ns)
  from Cons obtain ds where ds: "map_result Node_to_dict ns = Inr ds"
    "\<forall>us i. fst (import_nodes us i ds) = Inr ns"
    by auto
  from Cons.prems node_roundtrip [of n] obtain d where d: "Node_to_dict n = Inr d"
    "\<forall>u. fst (Node_from_dict u d) = Inr n"
    by auto
  have "fst (import_nodes us i (d # ds)) = Inr (n # ns)" for us i
  proof -
    obtain ev where 1: "Node_from_dict (us i) d = (Inr n, ev)"
      using d(2) [rule_format, of "us i"] by (cases "Node_from_dict (us i) d") auto
    obtain ev' where 2: "import_nodes us (Suc i) ds = (Inr ns, ev')"
      using ds(2) [rule_format, of us "Suc i"] by (cases "import_nodes us (Suc i) ds") auto
    from 1 2 show ?thesis by simp
  qed
  with d ds show ?case by simp
qed

lemma roundtrip_of_invariant:
  assumes "workflow_invariant w"
  shows "\<exists>d. Workflow_to_dict w = Inr d
           \<and> (\<forall>uuid uuids now. fst (Workflow_from_dict uuid uuids now d) = Inr w)"
proof -
  from assms have f: "w_id w \<noteq> []" "w_name w \<noteq> []" "strip (w_name w) = w_name w"
    and ns: "list_all node_invariant (nodes w)"
    by (simp_all add: workflow_invariant_def)
  from nodes_roundtrip [OF ns] obtain ds where ds: "map_result Node_to_dict (nodes w) = Inr ds"
    "\<forall>us i. fst (import_nodes us i ds) = Inr (nodes w)"
    by blast
  have rec: "\<lparr> w_id = w_id w, w_name = w_name w, nodes = nodes w, connections = connections w,
               active = active w, settings = settings w, tags = tags w,
               created_at = created_at w, updated_at = updated_at w \<rparr> = w"
    by (cases w) simp
  have "fst (Workflow_from_dict uuid uuids now
          (PDict [(''id'', PStr (w_id w)), (''name'', PStr (w_name w)), (''nodes'', PList ds),
                  (''connections'', connections w), (''active'', active w),
                  (''settings'', settings w), (''tags'', tags w),
                  (''createdAt'', created_at w), (''updatedAt'', updated_at w),
                  (''pinData'', PDict []),
                  (''meta'', PDict [(''instanceId'', PStr (w_id w))])])) = Inr w"
    for uuid uuids now
  proof -
    obtain ev where i: "import_nodes uuids 0 ds = (Inr (nodes w), ev)"
      using ds(2) [rule_format, of uuids 0] by (cases "import_nodes uuids 0 ds") auto
    from f i rec show ?thesis
      by (simp add: Workflow_from_dict_def Workflow_init_def dict_get_def is_blank_PStr
                    id_or_fresh_def py_strip_def Let_def)
  qed
  with ds(1) show ?thesis
    by (simp add: Workflow_to_dict_def)
qed

text \<open>
  C3. For a workflow built through the public interface, \<^verbatim>\<open>to_dict\<close> returns a document,
  and \<^verbatim>\<open>Workflow.from_dict\<close> of that document returns, whatever identifiers and time it
  would generate, a workflow equal to the first in every attribute: the name, \<^verbatim>\<open>active\<close>,
  \<^verbatim>\<open>settings\<close>, \<^verbatim>\<open>tags\<close>, the nodes in number and order with their ids, names, types,
  positions and parameters, the \<^verbatim>\<open>connections\<close> mapping, and both timestamps, which the
  document always holds.
\<close>

theorem workflow_roundtrip:
  assumes "built w"
  shows "\<exists>d. Workflow_to_dict w = Inr d
           \<and> (\<forall>uuid uuids now. fst (Workflow_from_dict uuid uuids now d) = Inr w)"
  using assms by (intro roundtrip_of_invariant built_invariant)

lemma empty_workflow_built: "built empty_workflow"
proof -
  have "\<exists>ev. Workflow_init example_uuid ''2024-05-01T10:00:00'' (PStr ''Test Workflow'')
               (PStr ''w1'') = (Inr empty_workflow, ev)"
    by (simp add: Workflow_init_def is_blank_def id_or_fresh_def py_strip_def strip_def
                  py_isspace_def empty_workflow_def)
  then obtain ev where
    "Workflow_init example_uuid ''2024-05-01T10:00:00'' (PStr ''Test Workflow'') (PStr ''w1'')
       = (Inr empty_workflow, ev)" ..
  moreover have "length example_uuid = 36"
    by (simp add: example_uuid_def)
  ultimately show ?thesis
    by (intro built.created [of example_uuid "PStr ''w1''"]) simp_all
qed

lemma start_node_public: "public_node start_node"
proof -
  have "\<exists>ev. Node_init example_uuid (PStr ''n8n-nodes-base.manualTrigger'') (PStr ''Start'')
               (PStr ''n1'') (PInt 1) (PDict []) (PList [PInt 0, PInt 0]) PNone
             = (Inr start_node, ev)"
    by (simp add: Node_init_def is_blank_def id_or_fresh_def py_strip_def py_or_def strip_def
                  py_isspace_def start_node_def)
  then obtain ev where
    "Node_init example_uuid (PStr ''n8n-nodes-base.manualTrigger'') (PStr ''Start'')
       (PStr ''n1'') (PInt 1) (PDict []) (PList [PInt 0, PInt 0]) PNone = (Inr start_node, ev)" ..
  moreover have "length example_uuid = 36"
    by (simp add: example_uuid_def)
  ultimately show ?thesis
    by (intro public_node.constructed [of example_uuid "PStr ''n1''" "PDict []"
                "PList [PInt 0, PInt 0]" PNone]) simp_all
qed

theorem workflow_roundtrip_witness:
  "built (fst (snd (connect ''2024-05-01T10:00:02'' start_node start_node ''main'' ''main'' 1 0
                     (fst (snd (add_node ''2024-05-01T10:00:01'' start_node empty_workflow))))))
   \<and> (\<exists>d. Workflow_to_dict
             (fst (snd (connect ''2024-05-01T10:00:02'' start_node start_node ''main'' ''main'' 1 0
                          (fst (snd (add_node ''2024-05-01T10:00:01'' start_node
                                       empty_workflow)))))) = Inr d
          \<and> (\<forall>uuid uuids now.
                fst (Workflow_from_dict uuid uuids now d) =
                  Inr (fst (snd (connect ''2024-05-01T10:00:02'' start_node start_node ''main''
                                   ''main'' 1 0
                                   (fst (snd (add_node ''2024-05-01T10:00:01'' start_node
                                                empty_workflow))))))))"
proof -
  have b: "built (fst (snd (connect ''2024-05-01T10:00:02'' start_node start_node ''main''
                              ''main'' 1 0
                              (fst (snd (add_node ''2024-05-01T10:00:01'' start_node
                                           empty_workflow))))))"
    by (intro built.connected built.added empty_workflow_built start_node_public)
  from b workflow_roundtrip [OF b] show ?thesis
    by (rule conjI)
qed

end
